theory Spec2Isabelle
  imports Main "HOL-Library.Word" "HOL-Library.Signed_Division"
begin

section \<open>TPP\_TOF: point-of-interest selection on a time-of-flight sensor grid\<close>

text \<open>
  A shallow embedding of \<^verbatim>\<open>TPP_TOF.cpp\<close> (Team Practical Project, animatronic eyes).
  The functions of the source that take part in the signal path are definitions here,
  under the source's names: \<^verbatim>\<open>processMeasuredData\<close>, \<^verbatim>\<open>scoreZone\<close>, \<^verbatim>\<open>avgdistZone\<close>,
  \<^verbatim>\<open>validate\<close>, \<^verbatim>\<open>getPOI\<close>, \<^verbatim>\<open>getPOITemporalFiltered\<close> and \<^verbatim>\<open>initTOF\<close>. The body of a
  loop that the statements below speak about is a definition of its own (\<open>adjustCell\<close>,
  \<open>zoneTotals\<close>, \<open>scanZone\<close>, \<open>calibrationCell\<close>, \<open>similarFrames\<close>). The globals and the
  static variables of the source are records that the functions take and return; the
  sensor and the clock are arguments. Serial printing and logging have no effect on any
  value and are left out.

  Integers. The distances, grid coordinates and calibration values of the source are
  \<^verbatim>\<open>int\<close> and \<^verbatim>\<open>int32_t\<close> variables that hold sensor readings, grid indices below 64 and
  sums of at most 64 readings, so 32-bit arithmetic on them does not wrap and they are
  modelled as \<^typ>\<open>int\<close>. The one narrowing conversion of the source, the cast
  \<^verbatim>\<open>(int16_t) measuredData\<close>, is written out. The counter of the temporal filter is
  incremented without a bound in the source: it is a 32-bit word here, read as a signed
  number, and wraps as the addition of the target does.
\<close>

subsection \<open>Constants and global data\<close>

definition NOISE_RANGE :: int where
  "NOISE_RANGE = 50"

definition MAX_CALIBRATION :: int where
  "MAX_CALIBRATION = 2000"

definition FRAMES_FOR_GOOD_HIT :: int where
  "FRAMES_FOR_GOOD_HIT = 2"

text \<open>
  Modelled from the spec: the declaration of \<^verbatim>\<open>VL53L5CX_ResultsData\<close> belongs to the sensor
  driver and is not among the sources. The spec's raw frame gives every cell a distance in
  millimetres, a non-negative integer, and a small integer status code; the source reads
  the two arrays \<^verbatim>\<open>distance_mm\<close> and \<^verbatim>\<open>target_status\<close> by cell index.
\<close>

record VL53L5CX_ResultsData =
  distance_mm :: "int list"
  target_status :: "int list"

text \<open>
  The file-level globals of the source: \<^verbatim>\<open>imageResolution\<close> and \<^verbatim>\<open>imageWidth\<close> are read
  back from the sensor by \<^verbatim>\<open>initTOF\<close>, \<^verbatim>\<open>calibration\<close> is the array of 64 background
  distances.
\<close>

record tof_globals =
  imageResolution :: int
  imageWidth :: int
  calibration :: "int list"

text \<open>
  The arrays of a well-formed configuration are as the source declares them:
  \<^verbatim>\<open>calibration\<close> has 64 entries, the grid is square and has at most 64 cells.
\<close>

definition globals_ok :: "tof_globals \<Rightarrow> bool" where
  "globals_ok g \<longleftrightarrow>
     0 \<le> imageWidth g \<and> imageResolution g = imageWidth g * imageWidth g \<and>
     imageResolution g \<le> 64 \<and> length (calibration g) = 64"

text \<open>
  A raw frame has an entry for each of the 64 cells of the sensor, and its distances are
  non-negative (the raw frame of the spec's data model).
\<close>

definition frame_ok :: "VL53L5CX_ResultsData \<Rightarrow> bool" where
  "frame_ok m \<longleftrightarrow>
     length (distance_mm m) = 64 \<and> length (target_status m) = 64 \<and>
     list_all (\<lambda>d. 0 \<le> d) (distance_mm m)"

subsection \<open>processMeasuredData\<close>

text \<open>The conversion \<^verbatim>\<open>(int16_t) v\<close>: the value modulo \<open>2^16\<close>, read as two's complement.\<close>

definition int16_t :: "int \<Rightarrow> int" where
  "int16_t v = (v + 32768) mod 65536 - 32768"

text \<open>
  The body of the loop of \<^verbatim>\<open>processMeasuredData\<close> for one cell: the value written to
  \<^verbatim>\<open>adjustedData[i]\<close> from the cell's status code, its measured distance and its
  calibration value.
\<close>

definition adjustCell :: "int \<Rightarrow> int \<Rightarrow> int \<Rightarrow> int" where
  "adjustCell statusCode measuredData calib =
     (if statusCode \<noteq> 5 \<and> statusCode \<noteq> 9 \<and> statusCode \<noteq> 6 then - 1
      else if measuredData = 0 \<or> measuredData > MAX_CALIBRATION then - 2
      else
        (let deltaDist = \<bar>measuredData - calib\<bar> in
         if deltaDist \<le> NOISE_RANGE \<or> measuredData > calib then - 3
         else int16_t measuredData))"

text \<open>
  The loop runs over \<open>i = 0, \<dots>, imageResolution - 1\<close> and writes every entry of
  \<^verbatim>\<open>adjustedData\<close>, an array of \<^verbatim>\<open>imageResolution\<close> entries.
\<close>

definition processMeasuredData :: "tof_globals \<Rightarrow> VL53L5CX_ResultsData \<Rightarrow> int list" where
  "processMeasuredData g measurementData =
     map (\<lambda>i. adjustCell (target_status measurementData ! i)
                 (distance_mm measurementData ! i) (calibration g ! i))
       [0..<nat (imageResolution g)]"

subsection \<open>scoreZone, avgdistZone, validate\<close>

text \<open>
  The division and the remainder of C truncate towards zero: \<open>sdiv\<close> and \<open>smod\<close>.
  The two nested loops over \<^verbatim>\<open>yIndex\<close> and \<^verbatim>\<open>xIndex\<close> from \<open>-1\<close> to \<open>1\<close> are folds
  over the three offsets, the outer loop over \<^verbatim>\<open>yIndex\<close>.
\<close>

definition scoreZone :: "tof_globals \<Rightarrow> int \<Rightarrow> int list \<Rightarrow> int" where
  "scoreZone g location dataArray =
     (let locYInit = location sdiv imageWidth g;
          locXInit = location smod imageWidth g
      in fold (\<lambda>yIndex. fold (\<lambda>xIndex score.
            (let locX = locXInit + xIndex;
                 locY = locYInit + yIndex
             in if locX \<ge> 0 \<and> locX < imageWidth g \<and> locY \<ge> 0 \<and> locY < imageWidth g
                then (let loc = locY * imageWidth g + locX
                      in if dataArray ! nat loc > 0 then score + 1 else score)
                else score))
            [- 1, 0, 1]) [- 1, 0, 1] 0)"

text \<open>
  The two loops of \<^verbatim>\<open>avgdistZone\<close>: the sum \<^verbatim>\<open>totalDist\<close> and the number
  \<^verbatim>\<open>numZones\<close> of the positive entries in the neighbourhood of the cell.
\<close>

definition zoneTotals :: "tof_globals \<Rightarrow> int \<Rightarrow> int list \<Rightarrow> int \<times> int" where
  "zoneTotals g location distance =
     (let locYInit = location sdiv imageWidth g;
          locXInit = location smod imageWidth g
      in fold (\<lambda>yIndex. fold (\<lambda>xIndex (totalDist, numZones).
            (let locX = locXInit + xIndex;
                 locY = locYInit + yIndex
             in if locX \<ge> 0 \<and> locX < imageWidth g \<and> locY \<ge> 0 \<and> locY < imageWidth g
                then (let loc = locY * imageWidth g + locX
                      in if distance ! nat loc > 0
                         then (totalDist + distance ! nat loc, numZones + 1)
                         else (totalDist, numZones))
                else (totalDist, numZones)))
            [- 1, 0, 1]) [- 1, 0, 1] (0, 0))"

text \<open>
  \<^verbatim>\<open>avgdistZone\<close> returns the cell's own entry when that entry is not positive, and the
  truncated mean of the positive entries of the neighbourhood otherwise. The cell itself
  is then one of them, so the divisor is not 0 for a cell of the grid
  (\<open>zoneTotals_divisor\<close> below).
\<close>

definition avgdistZone :: "tof_globals \<Rightarrow> int \<Rightarrow> int list \<Rightarrow> int" where
  "avgdistZone g location distance =
     (let avgDist = distance ! nat location
      in if distance ! nat location > 0
         then (let (totalDist, numZones) = zoneTotals g location distance
               in totalDist sdiv numZones)
         else avgDist)"

definition validate :: "int \<Rightarrow> bool" where
  "validate score =
     (let VALID_SCORE_MINIMUM = 3
      in if score \<ge> VALID_SCORE_MINIMUM then True else False)"

subsection \<open>getPOI\<close>

text \<open>
  Modelled from the spec: the struct \<^verbatim>\<open>pointOfInterest\<close> is declared in \<^verbatim>\<open>TPP_TOF.h\<close>, which
  is not among the sources. Its fields are the ones \<^verbatim>\<open>getPOI\<close> assigns, integers and
  booleans as in the spec's POI record. The fields \<^verbatim>\<open>x\<close> and \<^verbatim>\<open>y\<close> of the source are
  \<open>poi_x\<close> and \<open>poi_y\<close> here, so that \<open>x\<close> and \<open>y\<close> stay free for variables.
\<close>

record pointOfInterest =
  gotNewSensorData :: bool
  hasDetection :: bool
  poi_x :: int
  poi_y :: int
  distanceMM :: int
  detectedAtMS :: int
  calibrationDistMM :: int
  surroundingHits :: int

text \<open>
  What the sensor answers in one call of \<^verbatim>\<open>getPOI\<close>: \<^verbatim>\<open>isDataReady()\<close> is false
  (\<open>NotReady\<close>), or it is true and \<^verbatim>\<open>getRangingData\<close> fails (\<open>ReadFailed\<close>), or it is true
  and \<^verbatim>\<open>getRangingData\<close> stores a frame in \<^verbatim>\<open>measurementData\<close> (\<open>NewFrame\<close>).
\<close>

datatype sensor_poll = NotReady | ReadFailed | NewFrame VL53L5CX_ResultsData

text \<open>
  The body of the inner loop of \<^verbatim>\<open>getPOI\<close> for the cell in column \<open>x\<close> of row \<open>y\<close>;
  \<open>millis\<close> is the reading of the clock.
\<close>

definition scanZone ::
    "tof_globals \<Rightarrow> int list \<Rightarrow> int \<Rightarrow> int \<Rightarrow> int \<Rightarrow> pointOfInterest \<Rightarrow> pointOfInterest" where
  "scanZone g adjustedData millis y x pPOI =
     (let thisZone = y * imageWidth g + x;
          avgDistThisZone = avgdistZone g thisZone adjustedData;
          score = scoreZone g thisZone adjustedData
      in if adjustedData ! nat thisZone > 0
            \<and> validate score
            \<and> adjustedData ! nat thisZone < calibration g ! nat thisZone
            \<and> adjustedData ! nat thisZone < distanceMM pPOI
            \<and> avgDistThisZone > NOISE_RANGE
         then pPOI\<lparr>poi_x := x, poi_y := y,
                   distanceMM := adjustedData ! nat thisZone,
                   detectedAtMS := millis,
                   calibrationDistMM := calibration g ! nat thisZone,
                   hasDetection := True,
                   surroundingHits := score\<rparr>
         else pPOI)"

text \<open>
  \<^verbatim>\<open>getPOI\<close> resets the caller's struct (all fields but \<^verbatim>\<open>surroundingHits\<close>), and scans
  the grid when the sensor delivers a frame: rows \<open>y = 0, \<dots>, imageWidth - 1\<close>, and in each
  row the columns \<open>x = 0, \<dots>, imageWidth - 1\<close>.
\<close>

definition getPOI ::
    "tof_globals \<Rightarrow> sensor_poll \<Rightarrow> int \<Rightarrow> pointOfInterest \<Rightarrow> pointOfInterest" where
  "getPOI g poll millis pPOI =
     (let p0 = pPOI\<lparr>gotNewSensorData := False, hasDetection := False,
                     poi_x := - 255, poi_y := - 255, distanceMM := - 1,
                     detectedAtMS := - 1, calibrationDistMM := - 1\<rparr>
      in case poll of
           NewFrame measurementData \<Rightarrow>
             (let p1 = p0\<lparr>gotNewSensorData := True, distanceMM := MAX_CALIBRATION + 1\<rparr>;
                  adjustedData = processMeasuredData g measurementData
              in fold (\<lambda>y. fold (\<lambda>x. scanZone g adjustedData millis (int y) (int x))
                                [0..<nat (imageWidth g)])
                   [0..<nat (imageWidth g)] p1)
         | _ \<Rightarrow> p0)"

subsection \<open>getPOITemporalFiltered\<close>

text \<open>The six static variables of \<^verbatim>\<open>getPOITemporalFiltered\<close>, with their initial values.\<close>

record filter_state =
  waitingFirstDetection :: bool
  sequentialFramesWithHit :: "32 word"
  currentX :: int
  currentY :: int
  suppressedX :: int
  suppressedY :: int

definition filter_init :: filter_state where
  "filter_init =
     \<lparr>waitingFirstDetection = True, sequentialFramesWithHit = 0,
      currentX = - 1, currentY = - 1, suppressedX = - 1, suppressedY = - 1\<rparr>"

text \<open>
  The function returns the static variables and the caller's struct as it leaves them.
  The two spatial distances are the constant 0 in the source (the differences are
  commented out there).
\<close>

definition getPOITemporalFiltered ::
    "tof_globals \<Rightarrow> filter_state \<Rightarrow> sensor_poll \<Rightarrow> int \<Rightarrow> pointOfInterest
       \<Rightarrow> filter_state \<times> pointOfInterest" where
  "getPOITemporalFiltered g st poll millis pPOI0 =
     (let pPOI = getPOI g poll millis pPOI0
      in if \<not> gotNewSensorData pPOI then (st, pPOI)
         else if \<not> hasDetection pPOI then (st\<lparr>waitingFirstDetection := True\<rparr>, pPOI)
         else
           (let st1 = (if waitingFirstDetection st
                       then st\<lparr>waitingFirstDetection := False,
                               sequentialFramesWithHit := 0,
                               currentX := poi_x pPOI, currentY := poi_y pPOI,
                               suppressedX := - 1, suppressedY := - 1\<rparr>
                       else st);
                spatialDistX = (0::int);
                spatialDistY = (0::int);
                st2 = (if spatialDistX < 2 \<and> spatialDistY < 2
                       then st1\<lparr>sequentialFramesWithHit := sequentialFramesWithHit st1 + 1\<rparr>
                       else st1\<lparr>sequentialFramesWithHit := 1,
                                currentX := poi_x pPOI, currentY := poi_y pPOI\<rparr>);
                isPersistentDetection =
                  (sint (sequentialFramesWithHit st2) \<ge> FRAMES_FOR_GOOD_HIT)
            in if isPersistentDetection then (st2, pPOI)
               else (if suppressedX st2 \<noteq> poi_x pPOI \<and> suppressedY st2 \<noteq> poi_y pPOI
                     then st2\<lparr>suppressedX := poi_x pPOI, suppressedY := poi_y pPOI\<rparr>
                     else st2,
                     pPOI\<lparr>hasDetection := False\<rparr>)))"

text \<open>
  A run of the filter: one call per cycle, the caller handing the same struct to every
  call. A cycle is the sensor's answer and the clock reading; the log of a cycle keeps the
  point of interest \<^verbatim>\<open>getPOI\<close> computed in it, the static variables after it and the struct
  returned to the caller.
\<close>

record cycle_log =
  rawPOI :: pointOfInterest
  stateAfter :: filter_state
  outPOI :: pointOfInterest

definition cycle ::
    "tof_globals \<Rightarrow> filter_state \<Rightarrow> pointOfInterest \<Rightarrow> sensor_poll \<times> int \<Rightarrow> cycle_log" where
  "cycle g st pPOI c =
     (let r = getPOITemporalFiltered g st (fst c) (snd c) pPOI
      in \<lparr>rawPOI = getPOI g (fst c) (snd c) pPOI, stateAfter = fst r, outPOI = snd r\<rparr>)"

fun run ::
    "tof_globals \<Rightarrow> filter_state \<Rightarrow> pointOfInterest \<Rightarrow> (sensor_poll \<times> int) list
       \<Rightarrow> cycle_log list" where
  "run g st pPOI [] = []"
| "run g st pPOI (c # cs) =
     (let l = cycle g st pPOI c in l # run g (stateAfter l) (outPOI l) cs)"

subsection \<open>initTOF: the calibration frame\<close>

text \<open>
  The last loop of \<^verbatim>\<open>initTOF\<close> copies the 64 distances of \<^verbatim>\<open>measurementData\<close> into
  \<^verbatim>\<open>calibration\<close> and replaces a value that is 0 or above \<^verbatim>\<open>MAX_CALIBRATION\<close>.
\<close>

definition calibrationCell :: "int \<Rightarrow> int" where
  "calibrationCell d = (if d = 0 \<or> d > MAX_CALIBRATION then MAX_CALIBRATION else d)"

definition readCalibration :: "VL53L5CX_ResultsData \<Rightarrow> int list" where
  "readCalibration measurementData =
     map (\<lambda>i. calibrationCell (distance_mm measurementData ! i)) [0..<64]"

text \<open>
  The loop before it looks for two successive frames whose sums of distances differ by
  less than 500, and gives up after more than 500 frames. It runs for as long as the
  sensor takes: the model runs it over the finite list of the sensor's answers, one
  answer for each pass of the loop, and is \<open>None\<close> when the loop has not ended within the
  list. The result is the frame in \<^verbatim>\<open>measurementData\<close> when the loop ends; a failed read
  leaves \<^verbatim>\<open>measurementData\<close> as it was.
\<close>

fun similarFrames ::
    "int \<Rightarrow> sensor_poll list \<Rightarrow> int \<Rightarrow> int \<Rightarrow> VL53L5CX_ResultsData
       \<Rightarrow> VL53L5CX_ResultsData option" where
  "similarFrames res [] frameCount lastFrameSum md = None"
| "similarFrames res (NewFrame m # polls) frameCount lastFrameSum md =
     (let frameCount1 = frameCount + 1;
          sumOfDistances = fold (\<lambda>i s. s + distance_mm m ! i) [0..<nat res] 0;
          similar = (\<bar>lastFrameSum - sumOfDistances\<bar> < 500);
          lastFrameSum1 = (if similar then lastFrameSum else sumOfDistances);
          gotSimilarFrames = (similar \<or> frameCount1 > 500)
      in if gotSimilarFrames then Some m
         else similarFrames res polls frameCount1 lastFrameSum1 m)"
| "similarFrames res (_ # polls) frameCount lastFrameSum md =
     (let gotSimilarFrames = (frameCount > 500)
      in if gotSimilarFrames then Some md
         else similarFrames res polls frameCount lastFrameSum md)"

text \<open>
  The width of the grid is \<^verbatim>\<open>sqrt(imageResolution)\<close> converted to \<^verbatim>\<open>int\<close>: the number of
  positive \<open>k\<close> with \<open>k * k \<le> imageResolution\<close>.
\<close>

definition int_sqrt :: "int \<Rightarrow> int" where
  "int_sqrt n = int (length (filter (\<lambda>k. int (k * k) \<le> n) [1..<nat n + 1]))"

text \<open>
  \<^verbatim>\<open>initTOF\<close>: \<open>sensorFound\<close> is the result of \<^verbatim>\<open>myImager.begin()\<close> (the source loops for
  ever when it is false), \<open>resolution\<close> the value of \<^verbatim>\<open>myImager.getResolution()\<close>, \<open>md0\<close>
  the content of \<^verbatim>\<open>measurementData\<close> at the start. The first loop waits until
  \<^verbatim>\<open>isDataReady()\<close> is true, the second one is \<open>similarFrames\<close>.
\<close>

definition initTOF ::
    "bool \<Rightarrow> int \<Rightarrow> VL53L5CX_ResultsData \<Rightarrow> sensor_poll list \<Rightarrow> tof_globals option" where
  "initTOF sensorFound resolution md0 polls =
     (if \<not> sensorFound then None
      else case dropWhile (\<lambda>p. p = NotReady) polls of
             [] \<Rightarrow> None
           | _ # polls1 \<Rightarrow>
               (case similarFrames resolution polls1 0 0 md0 of
                  None \<Rightarrow> None
                | Some measurementData \<Rightarrow>
                    Some \<lparr>imageResolution = resolution,
                          imageWidth = int_sqrt resolution,
                          calibration = readCalibration measurementData\<rparr>))"

subsection \<open>Predicates and values used in the statements\<close>

text \<open>
  The conditions of the \<^verbatim>\<open>if\<close> in \<^verbatim>\<open>getPOI\<close> that depend on the cell alone: all of them
  but the comparison with the closest distance found so far.
\<close>

definition qualifies :: "tof_globals \<Rightarrow> int list \<Rightarrow> int \<Rightarrow> bool" where
  "qualifies g adjustedData thisZone \<longleftrightarrow>
     adjustedData ! nat thisZone > 0
     \<and> validate (scoreZone g thisZone adjustedData)
     \<and> adjustedData ! nat thisZone < calibration g ! nat thisZone
     \<and> avgdistZone g thisZone adjustedData > NOISE_RANGE"

text \<open>
  The support of a cell in the spec's words, to be compared with \<^verbatim>\<open>scoreZone\<close>: the cells
  of the 3 by 3 neighbourhood centred on the cell \<open>(x, y)\<close>, the cell included, that lie
  in the grid, and the number of them whose entry is valid.
\<close>

definition neighbourhood :: "tof_globals \<Rightarrow> int \<Rightarrow> int \<Rightarrow> (int \<times> int) list" where
  "neighbourhood g x y =
     filter (\<lambda>(nx, ny). 0 \<le> nx \<and> nx < imageWidth g \<and> 0 \<le> ny \<and> ny < imageWidth g)
       (concat (map (\<lambda>dy. map (\<lambda>dx. (x + dx, y + dy)) [- 1, 0, 1]) [- 1, 0, 1]))"

definition support :: "tof_globals \<Rightarrow> int list \<Rightarrow> int \<Rightarrow> int \<Rightarrow> int" where
  "support g adj x y =
     int (length (filter (\<lambda>(nx, ny). adj ! nat (ny * imageWidth g + nx) > 0)
                    (neighbourhood g x y)))"


text \<open>
  \<open>selects g adj n p k\<close>: after the scan of the cells \<open>0, \<dots>, n - 1\<close> the struct \<open>p\<close> holds
  the cell \<open>k\<close>, which qualifies, is at least as close as every qualifying cell scanned,
  and strictly closer than every qualifying cell scanned before it.
\<close>

definition selects :: "tof_globals \<Rightarrow> int list \<Rightarrow> nat \<Rightarrow> pointOfInterest \<Rightarrow> nat \<Rightarrow> bool" where
  "selects g adj n p k \<longleftrightarrow>
     k < n \<and> qualifies g adj (int k) \<and> hasDetection p \<and>
     poi_x p = int (k mod nat (imageWidth g)) \<and> poi_y p = int (k div nat (imageWidth g)) \<and>
     distanceMM p = adj ! k \<and> surroundingHits p = scoreZone g (int k) adj \<and>
     calibrationDistMM p = calibration g ! k \<and>
     (\<forall>z<n. qualifies g adj (int z) \<longrightarrow> adj ! k \<le> adj ! z) \<and>
     (\<forall>z<k. qualifies g adj (int z) \<longrightarrow> adj ! k < adj ! z)"

text \<open>
  The caller's struct after the assignments at the start of \<^verbatim>\<open>getPOI\<close> (\<open>resetPOI\<close>), and
  after the two assignments that follow a successful read (\<open>startPOI\<close>).
\<close>

definition resetPOI :: "pointOfInterest \<Rightarrow> pointOfInterest" where
  "resetPOI p0 =
     \<lparr>gotNewSensorData = False, hasDetection = False, poi_x = - 255, poi_y = - 255,
      distanceMM = - 1, detectedAtMS = - 1, calibrationDistMM = - 1,
      surroundingHits = surroundingHits p0\<rparr>"

definition startPOI :: "pointOfInterest \<Rightarrow> pointOfInterest" where
  "startPOI p0 =
     \<lparr>gotNewSensorData = True, hasDetection = False, poi_x = - 255, poi_y = - 255,
      distanceMM = 2001, detectedAtMS = - 1, calibrationDistMM = - 1,
      surroundingHits = surroundingHits p0\<rparr>"

text \<open>
  The tags of the spec's classification, and the reading of an entry of \<^verbatim>\<open>adjustedData\<close>
  as a tag: the source writes \<open>-1\<close> for a bad status, \<open>-2\<close> for a distance out of
  range, \<open>-3\<close> for background, and the distance itself, which \<^verbatim>\<open>scoreZone\<close>,
  \<^verbatim>\<open>avgdistZone\<close> and \<^verbatim>\<open>getPOI\<close> take as valid when it is positive.
\<close>

datatype Classification = BadStatus | OutOfRange | Background | Valid int

definition classification :: "int \<Rightarrow> Classification option" where
  "classification v =
     (if v = - 1 then Some BadStatus
      else if v = - 2 then Some OutOfRange
      else if v = - 3 then Some Background
      else if v > 0 then Some (Valid v)
      else None)"

subsection \<open>Concrete inputs\<close>

text \<open>
  An 8 by 8 grid calibrated at 1000 mm in every cell; a struct of the caller; frames in
  which every status is 5 and every distance 1000 mm but for a block of four cells, the
  cell \<open>z\<close> at 400 mm and its right, lower and lower right neighbours at 500 mm.
\<close>

definition g8 :: tof_globals where
  "g8 = \<lparr>imageResolution = 64, imageWidth = 8, calibration = replicate 64 1000\<rparr>"

definition poi0 :: pointOfInterest where
  "poi0 =
     \<lparr>gotNewSensorData = False, hasDetection = False, poi_x = 0, poi_y = 0, distanceMM = 0,
      detectedAtMS = 0, calibrationDistMM = 0, surroundingHits = 0\<rparr>"

definition blockFrame :: "nat \<Rightarrow> VL53L5CX_ResultsData" where
  "blockFrame z =
     \<lparr>distance_mm = (replicate 64 1000)[z := 400, z + 1 := 500, z + 8 := 500, z + 9 := 500],
      target_status = replicate 64 5\<rparr>"

text \<open>A frame with two such blocks, at the cells 0 and 45, both at 400 mm.\<close>

definition tieFrame :: VL53L5CX_ResultsData where
  "tieFrame =
     \<lparr>distance_mm = (replicate 64 1000)[0 := 400, 1 := 500, 8 := 500, 9 := 500,
                                         45 := 400, 46 := 500, 53 := 500, 54 := 500],
      target_status = replicate 64 5\<rparr>"

text \<open>A frame in which no measurement is good: every status is 0.\<close>

definition badFrame :: VL53L5CX_ResultsData where
  "badFrame = \<lparr>distance_mm = replicate 64 700, target_status = replicate 64 0\<rparr>"

text \<open>The scene of the calibration itself: every distance 1000 mm, every status 5.\<close>

definition sceneFrame :: VL53L5CX_ResultsData where
  "sceneFrame = \<lparr>distance_mm = replicate 64 1000, target_status = replicate 64 5\<rparr>"

text \<open>A frame with a cell at 0 and a cell above \<^verbatim>\<open>MAX_CALIBRATION\<close>.\<close>

definition clampFrame :: VL53L5CX_ResultsData where
  "clampFrame =
     \<lparr>distance_mm = (replicate 64 1000)[0 := 0, 1 := 2500], target_status = replicate 64 5\<rparr>"

text \<open>
  Runs of the filter: two frames with the block at different cells; two frames with the
  same block and a cycle without a new frame; and, from a state that tracks a cell with
  five hits counted, a frame without a detection followed by two frames with the block,
  each after a cycle without a new frame.
\<close>

definition twoCellCycles :: "(sensor_poll \<times> int) list" where
  "twoCellCycles = [(NewFrame (blockFrame 0), 1), (NewFrame (blockFrame 45), 2)]"

definition pauseCycles :: "(sensor_poll \<times> int) list" where
  "pauseCycles = [(NewFrame (blockFrame 0), 1), (NewFrame (blockFrame 0), 2), (NotReady, 3)]"

definition trackingState :: filter_state where
  "trackingState =
     \<lparr>waitingFirstDetection = False, sequentialFramesWithHit = 5,
      currentX = 0, currentY = 0, suppressedX = 0, suppressedY = 0\<rparr>"

definition lossCycles :: "(sensor_poll \<times> int) list" where
  "lossCycles =
     [(NewFrame badFrame, 1), (NotReady, 2), (NewFrame (blockFrame 0), 3), (NotReady, 4),
      (NewFrame (blockFrame 0), 5)]"

subsection \<open>Classification of a cell\<close>

lemma int16_t_id: "- 32768 \<le> v \<Longrightarrow> v \<le> 32767 \<Longrightarrow> int16_t v = v"
  by (simp add: int16_t_def)

lemma processMeasuredData_length [simp]:
  "length (processMeasuredData g m) = nat (imageResolution g)"
  by (simp add: processMeasuredData_def)

lemma processMeasuredData_nth:
  "i < nat (imageResolution g) \<Longrightarrow>
   processMeasuredData g m ! i =
     adjustCell (target_status m ! i) (distance_mm m ! i) (calibration g ! i)"
  by (simp add: processMeasuredData_def)

lemma frame_ok_nonneg: "frame_ok m \<Longrightarrow> i < 64 \<Longrightarrow> 0 \<le> distance_mm m ! i"
  by (simp add: frame_ok_def list_all_length)

lemma adjustCell_cases:
  "0 \<le> d \<Longrightarrow>
   adjustCell s d c =
     (if s \<notin> {5, 6, 9} then - 1
      else if d = 0 \<or> d > 2000 then - 2
      else if \<bar>d - c\<bar> \<le> 50 \<or> d > c then - 3
      else d)"
  by (auto simp add: adjustCell_def MAX_CALIBRATION_def NOISE_RANGE_def Let_def int16_t_id)

lemma adjustCell_positive:
  "0 \<le> d \<Longrightarrow> 0 < adjustCell s d c \<Longrightarrow>
   adjustCell s d c = d \<and> 1 \<le> d \<and> d \<le> 2000 \<and> d < c - 50"
  by (auto simp add: adjustCell_cases split: if_splits)

lemma in_grid_lt_64: "globals_ok g \<Longrightarrow> i < nat (imageResolution g) \<Longrightarrow> i < 64"
  unfolding globals_ok_def by linarith

subsection \<open>The divisor of avgdistZone\<close>

lemma sdiv_smod_nonneg:
  fixes a b :: int
  assumes "0 \<le> a" "0 < b"
  shows "a sdiv b = a div b" "a smod b = a mod b"
  using assms by (simp_all add: signed_divide_int_def signed_modulo_int_def sgn_if)

lemma zoneTotals_divisor:
  assumes g: "globals_ok g" and l: "0 \<le> location" "location < imageResolution g"
    and d: "0 < distance ! nat location"
  shows "1 \<le> snd (zoneTotals g location distance)"
proof -
  let ?W = "imageWidth g"
  define f :: "int \<Rightarrow> int \<Rightarrow> int \<times> int \<Rightarrow> int \<times> int" where
    "f = (\<lambda>yIndex xIndex (totalDist, numZones).
            (let locX = location smod ?W + xIndex;
                 locY = location sdiv ?W + yIndex
             in if locX \<ge> 0 \<and> locX < ?W \<and> locY \<ge> 0 \<and> locY < ?W
                then (let loc = locY * ?W + locX
                      in if distance ! nat loc > 0
                         then (totalDist + distance ! nat loc, numZones + 1)
                         else (totalDist, numZones))
                else (totalDist, numZones)))"
  have W: "0 < ?W" using g l by (cases "?W = 0") (auto simp: globals_ok_def)
  have x: "0 \<le> location mod ?W" "location mod ?W < ?W" using W by simp_all
  have "location div ?W < ?W"
  proof (rule ccontr)
    assume "\<not> location div ?W < ?W"
    then have "?W * ?W \<le> ?W * (location div ?W)"
      using W by (intro mult_left_mono) simp_all
    moreover have "?W * (location div ?W) + location mod ?W = location" by simp
    moreover have "0 \<le> location mod ?W" using W by simp
    ultimately have "?W * ?W \<le> location" by linarith
    then show False using g l by (simp add: globals_ok_def)
  qed
  moreover have "0 \<le> location div ?W" using l W by (simp add: pos_imp_zdiv_nonneg_iff)
  ultimately have y: "0 \<le> location div ?W" "location div ?W < ?W" by simp_all
  have mono: "snd acc \<le> snd (f yI xI acc)" for yI xI acc
    by (cases acc) (auto simp add: f_def Let_def)
  have centre: "snd (f 0 0 acc) = snd acc + 1" for acc
    using x y d l W by (cases acc) (auto simp add: f_def Let_def sdiv_smod_nonneg)
  define s4 where "s4 = f 0 (- 1) (f (- 1) 1 (f (- 1) 0 (f (- 1) (- 1) (0, 0))))"
  have "zoneTotals g location distance =
      fold (\<lambda>yIndex. fold (f yIndex) [- 1, 0, 1]) [- 1, 0, 1] (0, 0)"
    by (simp add: zoneTotals_def f_def Let_def)
  then have eq: "zoneTotals g location distance = f 1 1 (f 1 0 (f 1 (- 1) (f 0 1 (f 0 0 s4))))"
    by (simp add: s4_def)
  have "0 \<le> snd s4"
    using mono [of "(0, 0)" "- 1" "- 1"]
      mono [of "f (- 1) (- 1) (0, 0)" "- 1" 0]
      mono [of "f (- 1) 0 (f (- 1) (- 1) (0, 0))" "- 1" 1]
      mono [of "f (- 1) 1 (f (- 1) 0 (f (- 1) (- 1) (0, 0)))" 0 "- 1"]
    unfolding s4_def by simp
  moreover have "snd (f 0 0 s4) \<le> snd (f 1 1 (f 1 0 (f 1 (- 1) (f 0 1 (f 0 0 s4)))))"
    using mono [of "f 0 0 s4" 0 1]
      mono [of "f 0 1 (f 0 0 s4)" 1 "- 1"]
      mono [of "f 1 (- 1) (f 0 1 (f 0 0 s4))" 1 0]
      mono [of "f 1 0 (f 1 (- 1) (f 0 1 (f 0 0 s4)))" 1 1]
    by linarith
  ultimately show ?thesis
    using centre [of s4] unfolding eq by linarith
qed

subsection \<open>scoreZone counts the valid cells of the neighbourhood\<close>

lemma fold_count:
  "fold (\<lambda>a (s::int). if P a then s + 1 else s) xs s0 = s0 + int (length (filter P xs))"
  by (induction xs arbitrary: s0) simp_all

lemma zone_sdiv_smod:
  fixes W :: int
  assumes "0 \<le> x" "x < W" "0 \<le> y"
  shows "(y * W + x) sdiv W = y" "(y * W + x) smod W = x"
proof -
  have W: "0 < W" using assms by simp
  have nn: "0 \<le> y * W + x" using assms by simp
  show "(y * W + x) sdiv W = y" "(y * W + x) smod W = x"
    using assms by (simp_all add: sdiv_smod_nonneg [OF nn W])
qed

lemma filter_row:
  "length (filter Q (filter R (map h xs))) = length (filter (\<lambda>a. R (h a) \<and> Q (h a)) xs)"
  by (induction xs) auto

lemma filter_rows:
  "length (filter Q (filter R (concat (map (\<lambda>dy. map (\<lambda>dx. h dx dy) xs) [a, b, c])))) =
     length (filter (\<lambda>dx. R (h dx a) \<and> Q (h dx a)) xs) +
     length (filter (\<lambda>dx. R (h dx b) \<and> Q (h dx b)) xs) +
     length (filter (\<lambda>dx. R (h dx c) \<and> Q (h dx c)) xs)"
  by (simp add: filter_row comp_def)

lemma scoreZone_support:
  assumes "0 \<le> x" "x < imageWidth g" "0 \<le> y" "y < imageWidth g"
  shows "scoreZone g (y * imageWidth g + x) adj = support g adj x y"
proof -
  let ?W = "imageWidth g"
  let ?P = "\<lambda>yIndex xIndex. (x + xIndex \<ge> 0 \<and> x + xIndex < ?W \<and> y + yIndex \<ge> 0 \<and> y + yIndex < ?W)
              \<and> adj ! nat ((y + yIndex) * ?W + (x + xIndex)) > 0"
  have "scoreZone g (y * ?W + x) adj =
      fold (\<lambda>yIndex. fold (\<lambda>xIndex score. if ?P yIndex xIndex then score + 1 else score)
        [- 1, 0, 1]) [- 1, 0, 1] 0"
    unfolding scoreZone_def Let_def zone_sdiv_smod [OF assms(1,2,3)]
    by (intro fold_cong refl ext) auto
  also have "\<dots> = int (length (filter (?P (- 1)) [- 1, 0, 1])) +
      int (length (filter (?P 0) [- 1, 0, 1])) + int (length (filter (?P 1) [- 1, 0, 1]))"
    by (simp only: fold_count fold_simps id_apply comp_apply)
  also have "\<dots> = support g adj x y"
    unfolding support_def neighbourhood_def
    by (simp only: filter_rows case_prod_conv of_nat_add)
  finally show ?thesis .
qed

subsection \<open>The scan of getPOI\<close>

lemma fold_row_segment:
  assumes "0 < w"
  shows "fold (\<lambda>z. F (z div w) (z mod w)) [n * w..<n * w + w] p = fold (F n) [0..<w] p"
proof -
  have "[n * w..<n * w + w] = map (\<lambda>x. x + n * w) [0..<w]"
    by (simp add: map_add_upt add.commute)
  then have "fold (\<lambda>z. F (z div w) (z mod w)) [n * w..<n * w + w] p =
        fold ((\<lambda>z. F (z div w) (z mod w)) \<circ> (\<lambda>x. x + n * w)) [0..<w] p"
    by (simp add: fold_map)
  also have "\<dots> = fold (F n) [0..<w] p"
    using assms by (intro fold_cong) (auto simp: fun_eq_iff)
  finally show ?thesis .
qed

lemma fold_rows:
  "fold (\<lambda>y. fold (F y) [0..<w]) [0..<n] p = fold (\<lambda>z. F (z div w) (z mod w)) [0..<n * w] p"
proof (cases "w = 0")
  case True
  then show ?thesis by (simp add: fold_id)
next
  case False
  then have w: "0 < w" by simp
  show ?thesis
  proof (induction n)
    case 0
    then show ?case by simp
  next
    case (Suc n)
    have "[0..<Suc n * w] = [0..<n * w] @ [n * w..<n * w + w]"
      using upt_add_eq_append [of 0 "n * w" w] by (simp add: add.commute)
    then show ?case
      using Suc by (simp add: fold_row_segment [OF w])
  qed
qed

lemma scanZone_qualifies:
  "scanZone g adj ms y x p =
     (let z = y * imageWidth g + x
      in if qualifies g adj z \<and> adj ! nat z < distanceMM p
         then p\<lparr>poi_x := x, poi_y := y, distanceMM := adj ! nat z, detectedAtMS := ms,
                calibrationDistMM := calibration g ! nat z, hasDetection := True,
                surroundingHits := scoreZone g z adj\<rparr>
         else p)"
  by (auto simp add: scanZone_def qualifies_def Let_def)

lemma zone_of_nat:
  "0 < w \<Longrightarrow> int (z div w) * int w + int (z mod w) = int z"
  by (metis div_mult_mod_eq of_nat_add of_nat_mult)

lemma scan_invariant:
  assumes W: "imageWidth g = int w" "0 < w"
    and p1: "\<not> hasDetection p1"
    and bound: "\<forall>z<n. qualifies g adj (int z) \<longrightarrow> adj ! z < distanceMM p1"
  shows "(if \<exists>z<n. qualifies g adj (int z)
          then \<exists>k. selects g adj n (fold (\<lambda>z. scanZone g adj ms (int (z div w)) (int (z mod w))) [0..<n] p1) k
          else fold (\<lambda>z. scanZone g adj ms (int (z div w)) (int (z mod w))) [0..<n] p1 = p1)"
  using bound
proof (induction n)
  case 0
  then show ?case by simp
next
  case (Suc n)
  let ?step = "\<lambda>z. scanZone g adj ms (int (z div w)) (int (z mod w))"
  let ?p = "fold ?step [0..<n] p1"
  have step: "fold ?step [0..<Suc n] p1 = ?step n ?p" by simp
  have zn: "int (n div w) * imageWidth g + int (n mod w) = int n"
    using W zone_of_nat by simp
  have wn: "nat (imageWidth g) = w" using W by simp
  from Suc.prems have b: "\<forall>z<n. qualifies g adj (int z) \<longrightarrow> adj ! z < distanceMM p1"
    and bn: "qualifies g adj (int n) \<longrightarrow> adj ! n < distanceMM p1" by auto
  note IH = Suc.IH [OF b]
  show ?case
  proof (cases "\<exists>z<n. qualifies g adj (int z)")
    case False
    with IH have eq: "?p = p1" by simp
    show ?thesis
    proof (cases "qualifies g adj (int n)")
      case True
      then have "selects g adj (Suc n) (?step n ?p) n"
        using False bn eq
        by (simp add: scanZone_qualifies zn wn selects_def less_Suc_eq)
      then show ?thesis using True unfolding step by auto
    next
      case c: False
      then have "?step n ?p = p1" using eq by (simp add: scanZone_qualifies zn)
      moreover have "\<not> (\<exists>z<Suc n. qualifies g adj (int z))"
        using False c by (auto simp: less_Suc_eq)
      ultimately show ?thesis unfolding step by auto
    qed
  next
    case True
    with IH obtain k where k: "selects g adj n ?p k" by auto
    have ex: "\<exists>z<Suc n. qualifies g adj (int z)" using True by (auto simp: less_Suc_eq)
    show ?thesis
    proof (cases "qualifies g adj (int n) \<and> adj ! n < distanceMM ?p")
      case t: True
      have "selects g adj (Suc n) (?step n ?p) n"
        using k t unfolding selects_def
        by (simp add: scanZone_qualifies zn wn less_Suc_eq) force
      then show ?thesis using ex unfolding step by auto
    next
      case f: False
      then have "?step n ?p = ?p" by (auto simp add: scanZone_qualifies zn)
      moreover have "selects g adj (Suc n) ?p k"
        using k f unfolding selects_def by (auto simp: less_Suc_eq)
      ultimately show ?thesis using ex unfolding step by auto
    qed
  qed
qed

lemma getPOI_NewFrame:
  "getPOI g (NewFrame m) ms p0 =
     fold (\<lambda>z. scanZone g (processMeasuredData g m) ms
                 (int (z div nat (imageWidth g))) (int (z mod nat (imageWidth g))))
       [0..<nat (imageWidth g) * nat (imageWidth g)]
       (startPOI p0)"
  by (cases p0) (simp add: getPOI_def Let_def MAX_CALIBRATION_def startPOI_def
      fold_rows [of "\<lambda>y x. scanZone g (processMeasuredData g m) ms (int y) (int x)"])

lemma cells_of_grid: "globals_ok g \<Longrightarrow> nat (imageWidth g) * nat (imageWidth g) = nat (imageResolution g)"
  by (simp add: globals_ok_def nat_mult_distrib)

lemma adjusted_le_2000:
  assumes "globals_ok g" "frame_ok m" "z < nat (imageResolution g)"
  shows "processMeasuredData g m ! z \<le> 2000"
proof -
  have "z < 64" using assms unfolding globals_ok_def by linarith
  then have "0 \<le> distance_mm m ! z" using assms frame_ok_nonneg by blast
  then show ?thesis
    using assms by (simp add: processMeasuredData_nth adjustCell_cases)
qed

lemma getPOI_selects:
  assumes g: "globals_ok g" and m: "frame_ok m"
  shows "(if \<exists>z<nat (imageResolution g). qualifies g (processMeasuredData g m) (int z)
          then \<exists>k. selects g (processMeasuredData g m) (nat (imageResolution g))
                     (getPOI g (NewFrame m) ms p0) k
          else getPOI g (NewFrame m) ms p0 = startPOI p0)"
proof (cases "imageWidth g = 0")
  case True
  then have "nat (imageResolution g) = 0" using g by (simp add: globals_ok_def)
  then show ?thesis using True by (simp add: getPOI_NewFrame)
next
  case False
  define w where "w = nat (imageWidth g)"
  have W: "imageWidth g = int w" "0 < w" using False g by (auto simp: w_def globals_ok_def)
  have N: "w * w = nat (imageResolution g)" using cells_of_grid [OF g] by (simp add: w_def)
  let ?p1 = "startPOI p0"
  have "\<not> hasDetection ?p1" by (simp add: startPOI_def)
  moreover have "\<forall>z<w * w. qualifies g (processMeasuredData g m) (int z) \<longrightarrow>
      processMeasuredData g m ! z < distanceMM ?p1"
    using adjusted_le_2000 [OF g m] N by (fastforce simp: startPOI_def)
  ultimately show ?thesis
    using scan_invariant [OF W, of ?p1 "w * w" "processMeasuredData g m" ms]
    by (simp add: getPOI_NewFrame N [symmetric] w_def [symmetric])
qed

lemma getPOI_no_qualifying_cell:
  assumes "globals_ok g" and "frame_ok m"
    and "\<not> (\<exists>z<nat (imageResolution g). qualifies g (processMeasuredData g m) (int z))"
  shows "getPOI g (NewFrame m) ms p0 = startPOI p0"
  using getPOI_selects [OF assms(1,2), of ms p0] assms(3) by simp

lemma getPOI_not_NewFrame:
  "getPOI g NotReady ms p0 = resetPOI p0"
  "getPOI g ReadFailed ms p0 = resetPOI p0"
  by (cases p0; simp add: getPOI_def resetPOI_def)+

lemma getPOI_detection_NewFrame:
  "hasDetection (getPOI g poll ms p0) \<Longrightarrow> \<exists>m. poll = NewFrame m"
  by (cases poll) (simp_all add: getPOI_not_NewFrame resetPOI_def)

lemma getPOI_detection_selects:
  assumes "globals_ok g" "frame_ok m" "hasDetection (getPOI g (NewFrame m) ms p0)"
  shows "\<exists>k. selects g (processMeasuredData g m) (nat (imageResolution g))
               (getPOI g (NewFrame m) ms p0) k"
proof (rule ccontr)
  assume no: "\<not> ?thesis"
  then have "getPOI g (NewFrame m) ms p0 = startPOI p0"
    using getPOI_selects [OF assms(1,2), of ms p0] by (auto split: if_splits)
  then show False using assms(3) by (simp add: startPOI_def)
qed

lemma selects_zone:
  assumes g: "globals_ok g" and s: "selects g adj (nat (imageResolution g)) p k"
  shows "poi_y p * imageWidth g + poi_x p = int k \<and>
         0 \<le> poi_x p \<and> poi_x p < imageWidth g \<and> 0 \<le> poi_y p \<and> poi_y p < imageWidth g"
proof -
  define w where "w = nat (imageWidth g)"
  have W: "imageWidth g = int w" using g by (simp add: w_def globals_ok_def)
  have k: "k < w * w" using s cells_of_grid [OF g] by (simp add: selects_def w_def)
  then have w: "0 < w" by (cases w) auto
  have x: "poi_x p = int (k mod w)" and y: "poi_y p = int (k div w)"
    using s by (simp_all add: selects_def w_def)
  have "k div w < w" using k w by (simp add: less_mult_imp_div_less)
  moreover have "k mod w < w" using w by simp
  ultimately show ?thesis
    using zone_of_nat [OF w, of k] by (simp add: x y W)
qed

lemma grid_cell_unique:
  fixes W :: int
  assumes "0 \<le> x" "x < W" "0 \<le> x'" "x' < W" "y * W + x = y' * W + x'"
  shows "x = x' \<and> y = y'"
proof -
  have "(y * W + x) mod W = x" using assms(1,2) by simp
  moreover have "(y' * W + x') mod W = x'" using assms(3,4) by simp
  ultimately have x: "x = x'" using assms(5) by metis
  then have "y * W = y' * W" using assms(5) by simp
  then show ?thesis using x assms(1,2) by simp
qed

lemma row_major_less:
  fixes W :: int
  assumes "0 \<le> xa" "xa < W" "0 \<le> xb" "ya < yb \<or> (ya = yb \<and> xa < xb)"
  shows "ya * W + xa < yb * W + xb"
proof (cases "ya < yb")
  case True
  then have "(ya + 1) * W \<le> yb * W"
    using assms(1,2) by (intro mult_right_mono) auto
  then show ?thesis using assms(2,3) by (simp add: algebra_simps)
next
  case False
  then show ?thesis using assms(4) by simp
qed

subsection \<open>One call of the temporal filter\<close>

lemma scan_keeps_gotNewSensorData:
  "gotNewSensorData (fold (\<lambda>z. scanZone g adj ms (a z) (b z)) zs p) = gotNewSensorData p"
  by (induction zs arbitrary: p) (simp_all add: scanZone_def Let_def)

lemma getPOI_gotNewSensorData:
  "gotNewSensorData (getPOI g poll ms p) \<longleftrightarrow> (\<exists>m. poll = NewFrame m)"
  by (cases poll)
    (simp_all add: getPOI_not_NewFrame resetPOI_def getPOI_NewFrame
      scan_keeps_gotNewSensorData startPOI_def)

lemma getPOI_detection_new:
  "hasDetection (getPOI g poll ms p) \<Longrightarrow> gotNewSensorData (getPOI g poll ms p)"
  using getPOI_detection_NewFrame getPOI_gotNewSensorData by blast

lemma filtered_no_new:
  "\<not> gotNewSensorData (getPOI g poll ms p) \<Longrightarrow>
   getPOITemporalFiltered g st poll ms p = (st, getPOI g poll ms p)"
  by (simp add: getPOITemporalFiltered_def)

lemma filtered_loss:
  "gotNewSensorData (getPOI g poll ms p) \<Longrightarrow> \<not> hasDetection (getPOI g poll ms p) \<Longrightarrow>
   getPOITemporalFiltered g st poll ms p =
     (st\<lparr>waitingFirstDetection := True\<rparr>, getPOI g poll ms p)"
  by (simp add: getPOITemporalFiltered_def)

lemma filtered_hit:
  fixes st :: filter_state
  assumes "hasDetection (getPOI g poll ms p)"
  defines "r \<equiv> getPOITemporalFiltered g st poll ms p"
  shows "\<not> waitingFirstDetection (fst r)"
    and "sequentialFramesWithHit (fst r) =
           (if waitingFirstDetection st then 0 else sequentialFramesWithHit st) + 1"
    and "currentX (fst r) = (if waitingFirstDetection st then poi_x (getPOI g poll ms p) else currentX st)"
    and "currentY (fst r) = (if waitingFirstDetection st then poi_y (getPOI g poll ms p) else currentY st)"
    and "hasDetection (snd r) \<longleftrightarrow> 2 \<le> sint (sequentialFramesWithHit (fst r))"
  using assms getPOI_detection_new [OF assms(1)]
  by (simp_all add: getPOITemporalFiltered_def Let_def FRAMES_FOR_GOOD_HIT_def)

lemma cycle_fields:
  "rawPOI (cycle g st p c) = getPOI g (fst c) (snd c) p"
  "stateAfter (cycle g st p c) = fst (getPOITemporalFiltered g st (fst c) (snd c) p)"
  "outPOI (cycle g st p c) = snd (getPOITemporalFiltered g st (fst c) (snd c) p)"
  by (simp_all add: cycle_def Let_def)

lemma cycle_no_new:
  "\<not> gotNewSensorData (rawPOI (cycle g st p c)) \<Longrightarrow>
   stateAfter (cycle g st p c) = st \<and> outPOI (cycle g st p c) = rawPOI (cycle g st p c)"
  by (simp add: cycle_fields filtered_no_new)

lemma cycle_loss:
  "gotNewSensorData (rawPOI (cycle g st p c)) \<Longrightarrow> \<not> hasDetection (rawPOI (cycle g st p c)) \<Longrightarrow>
   waitingFirstDetection (stateAfter (cycle g st p c))"
  by (simp add: cycle_fields filtered_loss)

lemma cycle_no_hit_waiting:
  "\<not> hasDetection (rawPOI (cycle g st p c)) \<Longrightarrow> waitingFirstDetection st \<Longrightarrow>
   waitingFirstDetection (stateAfter (cycle g st p c))"
  by (cases "gotNewSensorData (rawPOI (cycle g st p c))")
    (simp_all add: cycle_loss cycle_no_new)

lemma cycle_hit:
  assumes "hasDetection (rawPOI (cycle g st p c))"
  shows "\<not> waitingFirstDetection (stateAfter (cycle g st p c))"
    and "sequentialFramesWithHit (stateAfter (cycle g st p c)) =
           (if waitingFirstDetection st then 0 else sequentialFramesWithHit st) + 1"
    and "currentX (stateAfter (cycle g st p c)) =
           (if waitingFirstDetection st then poi_x (rawPOI (cycle g st p c)) else currentX st)"
    and "currentY (stateAfter (cycle g st p c)) =
           (if waitingFirstDetection st then poi_y (rawPOI (cycle g st p c)) else currentY st)"
    and "hasDetection (outPOI (cycle g st p c)) \<longleftrightarrow>
           2 \<le> sint (sequentialFramesWithHit (stateAfter (cycle g st p c)))"
  using assms filtered_hit [of g "fst c" "snd c" p st]
  by (simp_all add: cycle_fields)

lemma cycle_out_detection:
  "hasDetection (outPOI (cycle g st p c)) \<Longrightarrow>
   hasDetection (rawPOI (cycle g st p c)) \<and> \<not> waitingFirstDetection st"
proof -
  assume out: "hasDetection (outPOI (cycle g st p c))"
  have raw: "hasDetection (rawPOI (cycle g st p c))"
  proof (rule ccontr)
    assume no: "\<not> hasDetection (rawPOI (cycle g st p c))"
    have "outPOI (cycle g st p c) = rawPOI (cycle g st p c)"
      by (cases "gotNewSensorData (rawPOI (cycle g st p c))")
        (use no in \<open>simp_all add: cycle_fields filtered_loss filtered_no_new\<close>)
    then show False using out no by simp
  qed
  have "\<not> waitingFirstDetection st"
  proof
    assume "waitingFirstDetection st"
    then have "sequentialFramesWithHit (stateAfter (cycle g st p c)) = 1"
      using cycle_hit(2) [OF raw] by simp
    then show False using cycle_hit(5) [OF raw] out by simp
  qed
  then show ?thesis using raw by simp
qed

lemma length_run [simp]: "length (run g st p cs) = length cs"
  by (induction cs arbitrary: st p) (simp_all add: Let_def)

lemma run_nth_0: "cs \<noteq> [] \<Longrightarrow> run g st p cs ! 0 = cycle g st p (cs ! 0)"
  by (cases cs) (simp_all add: Let_def)

lemma run_nth_Suc:
  "Suc i < length cs \<Longrightarrow>
   run g st p cs ! Suc i =
     cycle g (stateAfter (run g st p cs ! i)) (outPOI (run g st p cs ! i)) (cs ! Suc i)"
proof (induction cs arbitrary: st p i)
  case Nil
  then show ?case by simp
next
  case (Cons c cs)
  show ?case
  proof (cases i)
    case 0
    then show ?thesis using Cons.prems by (simp add: Let_def run_nth_0)
  next
    case (Suc i')
    then show ?thesis using Cons.prems Cons.IH [of i'] by (simp add: Let_def)
  qed
qed

subsection \<open>Runs of the temporal filter\<close>

lemma tracking_has_recent_hit:
  assumes "i < length cs"
    and "\<not> waitingFirstDetection (stateAfter (run g filter_init p cs ! i))"
  shows "\<exists>j\<le>i. hasDetection (rawPOI (run g filter_init p cs ! j)) \<and>
           (\<forall>k. j < k \<and> k \<le> i \<longrightarrow> \<not> gotNewSensorData (rawPOI (run g filter_init p cs ! k)))"
  using assms
proof (induction i)
  case 0
  then have tr: "run g filter_init p cs ! 0 = cycle g filter_init p (cs ! 0)"
    by (simp add: run_nth_0)
  have "hasDetection (rawPOI (run g filter_init p cs ! 0))"
  proof (rule ccontr)
    assume "\<not> hasDetection (rawPOI (run g filter_init p cs ! 0))"
    then have "waitingFirstDetection (stateAfter (run g filter_init p cs ! 0))"
      unfolding tr by (rule cycle_no_hit_waiting) (simp add: filter_init_def)
    then show False using "0.prems"(2) by simp
  qed
  then show ?case by auto
next
  case (Suc i)
  let ?tr = "run g filter_init p cs"
  have tr: "?tr ! Suc i = cycle g (stateAfter (?tr ! i)) (outPOI (?tr ! i)) (cs ! Suc i)"
    using Suc.prems(1) by (rule run_nth_Suc)
  show ?case
  proof (cases "hasDetection (rawPOI (?tr ! Suc i))")
    case True
    then show ?thesis by auto
  next
    case False
    have nonew: "\<not> gotNewSensorData (rawPOI (?tr ! Suc i))"
    proof
      assume "gotNewSensorData (rawPOI (?tr ! Suc i))"
      then have "waitingFirstDetection (stateAfter (?tr ! Suc i))"
        using False unfolding tr by (rule cycle_loss)
      then show False using Suc.prems(2) by simp
    qed
    then have "stateAfter (?tr ! Suc i) = stateAfter (?tr ! i)"
      unfolding tr using cycle_no_new by blast
    then have "\<not> waitingFirstDetection (stateAfter (?tr ! i))" using Suc.prems(2) by simp
    moreover have "i < length cs" using Suc.prems(1) by simp
    ultimately obtain j where j: "j \<le> i" "hasDetection (rawPOI (?tr ! j))"
      "\<forall>k. j < k \<and> k \<le> i \<longrightarrow> \<not> gotNewSensorData (rawPOI (?tr ! k))"
      using Suc.IH by blast
    have "\<forall>k. j < k \<and> k \<le> Suc i \<longrightarrow> \<not> gotNewSensorData (rawPOI (?tr ! k))"
      using j(3) nonew by (auto simp: le_Suc_eq)
    then show ?thesis using j(1,2) by (intro exI [of _ j]) simp
  qed
qed

lemma filtered_detection_needs_previous_hit:
  assumes "i < length cs" and "hasDetection (outPOI (run g filter_init p cs ! i))"
  shows "hasDetection (rawPOI (run g filter_init p cs ! i)) \<and>
         (\<exists>j<i. hasDetection (rawPOI (run g filter_init p cs ! j)) \<and>
            (\<forall>k. j < k \<and> k < i \<longrightarrow>
                 \<not> gotNewSensorData (rawPOI (run g filter_init p cs ! k))))"
proof (cases i)
  case 0
  have "run g filter_init p cs ! 0 = cycle g filter_init p (cs ! 0)"
    using assms(1) by (intro run_nth_0) auto
  then have "\<not> hasDetection (outPOI (run g filter_init p cs ! 0))"
    using cycle_out_detection [of g filter_init p "cs ! 0"] by (auto simp: filter_init_def)
  then show ?thesis using 0 assms(2) by simp
next
  case (Suc i')
  let ?tr = "run g filter_init p cs"
  have tr: "?tr ! Suc i' = cycle g (stateAfter (?tr ! i')) (outPOI (?tr ! i')) (cs ! Suc i')"
    using assms(1) Suc by (intro run_nth_Suc) simp
  have out: "hasDetection (outPOI (?tr ! Suc i'))" using assms(2) Suc by simp
  have raw: "hasDetection (rawPOI (?tr ! Suc i'))"
    and nw: "\<not> waitingFirstDetection (stateAfter (?tr ! i'))"
    using cycle_out_detection out unfolding tr by blast+
  have "i' < length cs" using assms(1) Suc by simp
  from tracking_has_recent_hit [OF this nw] obtain j where
    "j \<le> i'" "hasDetection (rawPOI (?tr ! j))"
    "\<forall>k. j < k \<and> k \<le> i' \<longrightarrow> \<not> gotNewSensorData (rawPOI (?tr ! k))" by blast
  then have "j < Suc i' \<and> hasDetection (rawPOI (?tr ! j)) \<and>
      (\<forall>k. j < k \<and> k < Suc i' \<longrightarrow> \<not> gotNewSensorData (rawPOI (?tr ! k)))"
    by (simp add: less_Suc_eq_le)
  then show ?thesis using raw Suc by blast
qed

lemma run_nth_cycle:
  "i < length cs \<Longrightarrow> \<exists>s' p'. run g st p cs ! i = cycle g s' p' (cs ! i)"
proof (cases i)
  case 0
  assume "i < length cs"
  then show ?thesis using 0 run_nth_0 [of cs g st p] by auto
next
  case (Suc i')
  assume "i < length cs"
  then show ?thesis using Suc run_nth_Suc [of i' cs g st p] by auto
qed

lemma waiting_persists:
  assumes "i \<le> n" and "n < length cs"
    and "waitingFirstDetection (stateAfter (run g st p cs ! i))"
    and "\<forall>k. i < k \<and> k \<le> n \<longrightarrow> \<not> hasDetection (rawPOI (run g st p cs ! k))"
  shows "waitingFirstDetection (stateAfter (run g st p cs ! n))"
  using assms
proof (induction n rule: dec_induct)
  case base
  then show ?case by simp
next
  case (step m)
  have "waitingFirstDetection (stateAfter (run g st p cs ! m))"
    using step by simp
  moreover have "\<not> hasDetection (rawPOI (run g st p cs ! Suc m))"
    using step.prems(3) step.hyps(1) by simp
  ultimately show ?case
    using run_nth_Suc [OF step.prems(1), of g st p] cycle_no_hit_waiting by metis
qed

lemma state_persists:
  assumes "j \<le> n" and "n < length cs"
    and "\<forall>k. j < k \<and> k \<le> n \<longrightarrow> \<not> gotNewSensorData (rawPOI (run g st p cs ! k))"
  shows "stateAfter (run g st p cs ! n) = stateAfter (run g st p cs ! j)"
  using assms
proof (induction n rule: dec_induct)
  case base
  then show ?case by simp
next
  case (step m)
  have "stateAfter (run g st p cs ! m) = stateAfter (run g st p cs ! j)"
    using step by simp
  moreover have "\<not> gotNewSensorData (rawPOI (run g st p cs ! Suc m))"
    using step.prems(2) step.hyps(1) by simp
  ultimately show ?case
    using run_nth_Suc [OF step.prems(1), of g st p] cycle_no_new by metis
qed

subsection \<open>The calibration frame\<close>

lemma similarFrames_frame:
  "frameCount \<le> 500 \<Longrightarrow> similarFrames res polls frameCount lastFrameSum md = Some m \<Longrightarrow>
   NewFrame m \<in> set polls"
proof (induction polls arbitrary: frameCount lastFrameSum md)
  case Nil
  then show ?case by simp
next
  case (Cons p polls)
  show ?case
  proof (cases p)
    case (NewFrame m')
    show ?thesis
    proof (cases "similarFrames res (p # polls) frameCount lastFrameSum md = Some m'")
      case True
      then show ?thesis using Cons.prems(2) NewFrame by simp
    next
      case False
      then have "frameCount + 1 \<le> 500 \<and>
          (\<exists>s. similarFrames res polls (frameCount + 1) s m' = Some m)"
        using Cons.prems NewFrame by (auto simp: Let_def split: if_splits)
      then obtain s where "frameCount + 1 \<le> 500"
        and "similarFrames res polls (frameCount + 1) s m' = Some m" by blast
      then have "NewFrame m \<in> set polls" by (rule Cons.IH)
      then show ?thesis by simp
    qed
  next
    case NotReady
    then have "similarFrames res polls frameCount lastFrameSum md = Some m"
      using Cons.prems by (simp add: Let_def split: if_splits)
    then show ?thesis using Cons.IH Cons.prems(1) by auto
  next
    case ReadFailed
    then have "similarFrames res polls frameCount lastFrameSum md = Some m"
      using Cons.prems by (simp add: Let_def split: if_splits)
    then show ?thesis using Cons.IH Cons.prems(1) by auto
  qed
qed

lemma initTOF_Some:
  assumes "initTOF sensorFound resolution md0 polls = Some g"
  shows "\<exists>m. NewFrame m \<in> set polls \<and> imageResolution g = resolution \<and>
             imageWidth g = int_sqrt resolution \<and> calibration g = readCalibration m"
proof -
  from assms obtain p polls1 m
    where dw: "dropWhile (\<lambda>p. p = NotReady) polls = p # polls1"
      and sf: "similarFrames resolution polls1 0 0 md0 = Some m"
      and g: "g = \<lparr>imageResolution = resolution, imageWidth = int_sqrt resolution,
                   calibration = readCalibration m\<rparr>"
    by (auto simp: initTOF_def split: if_splits list.splits option.splits)
  have "NewFrame m \<in> set polls1" using similarFrames_frame [OF _ sf] by simp
  then have "NewFrame m \<in> set (dropWhile (\<lambda>p. p = NotReady) polls)" using dw by simp
  then have "NewFrame m \<in> set polls" by (rule set_dropWhileD)
  then show ?thesis using g by auto
qed

lemma calibrationCell_range: "0 \<le> d \<Longrightarrow> 1 \<le> calibrationCell d \<and> calibrationCell d \<le> 2000"
  by (simp add: calibrationCell_def MAX_CALIBRATION_def)

lemma int_sqrt_64: "int_sqrt 64 = 8"
  by code_simp

lemma initTOF_globals_ok:
  "initTOF sensorFound 64 md0 polls = Some g \<Longrightarrow> globals_ok g"
  by (auto dest!: initTOF_Some simp: globals_ok_def int_sqrt_64 readCalibration_def)

subsection \<open>The concrete inputs, evaluated\<close>

lemma g8_ok: "globals_ok g8"
  by (simp add: globals_ok_def g8_def)

lemma blockFrame_ok: "z + 9 < 64 \<Longrightarrow> frame_ok (blockFrame z)"
  by (simp add: frame_ok_def blockFrame_def list_all_length nth_list_update)

lemma tieFrame_ok: "frame_ok tieFrame"
  by (simp add: frame_ok_def tieFrame_def list_all_length nth_list_update)

lemma getPOI_block0:
  "getPOI g8 (NewFrame (blockFrame 0)) ms poi0 =
     \<lparr>gotNewSensorData = True, hasDetection = True, poi_x = 0, poi_y = 0, distanceMM = 400,
      detectedAtMS = ms, calibrationDistMM = 1000, surroundingHits = 4\<rparr>"
  by code_simp

lemma getPOI_tie:
  "getPOI g8 (NewFrame tieFrame) ms poi0 =
     \<lparr>gotNewSensorData = True, hasDetection = True, poi_x = 0, poi_y = 0, distanceMM = 400,
      detectedAtMS = ms, calibrationDistMM = 1000, surroundingHits = 4\<rparr>"
  by code_simp

lemma tieFrame_positive:
  "list_all (\<lambda>v. 0 < v \<longrightarrow> 400 \<le> v) (processMeasuredData g8 tieFrame)"
  by code_simp

lemma initTOF_clampFrame:
  "initTOF True 64 sceneFrame [NewFrame clampFrame, NewFrame clampFrame, NewFrame clampFrame] =
     Some \<lparr>imageResolution = 64, imageWidth = 8,
           calibration = (replicate 64 1000)[0 := 2000, 1 := 2000]\<rparr>"
  by code_simp

lemma run_twoCellCycles:
  "run g8 filter_init poi0 twoCellCycles =
     [\<lparr>rawPOI =
         \<lparr>gotNewSensorData = True, hasDetection = True, poi_x = 0, poi_y = 0,
          distanceMM = 400, detectedAtMS = 1, calibrationDistMM = 1000, surroundingHits = 4\<rparr>,
       stateAfter =
         \<lparr>waitingFirstDetection = False, sequentialFramesWithHit = 1,
          currentX = 0, currentY = 0, suppressedX = 0, suppressedY = 0\<rparr>,
       outPOI =
         \<lparr>gotNewSensorData = True, hasDetection = False, poi_x = 0, poi_y = 0,
          distanceMM = 400, detectedAtMS = 1, calibrationDistMM = 1000, surroundingHits = 4\<rparr>\<rparr>,
      \<lparr>rawPOI =
         \<lparr>gotNewSensorData = True, hasDetection = True, poi_x = 5, poi_y = 5,
          distanceMM = 400, detectedAtMS = 2, calibrationDistMM = 1000, surroundingHits = 4\<rparr>,
       stateAfter =
         \<lparr>waitingFirstDetection = False, sequentialFramesWithHit = 2,
          currentX = 0, currentY = 0, suppressedX = 0, suppressedY = 0\<rparr>,
       outPOI =
         \<lparr>gotNewSensorData = True, hasDetection = True, poi_x = 5, poi_y = 5,
          distanceMM = 400, detectedAtMS = 2, calibrationDistMM = 1000, surroundingHits = 4\<rparr>\<rparr>]"
  by code_simp

lemma run_pauseCycles:
  "run g8 filter_init poi0 pauseCycles =
     [\<lparr>rawPOI =
         \<lparr>gotNewSensorData = True, hasDetection = True, poi_x = 0, poi_y = 0,
          distanceMM = 400, detectedAtMS = 1, calibrationDistMM = 1000, surroundingHits = 4\<rparr>,
       stateAfter =
         \<lparr>waitingFirstDetection = False, sequentialFramesWithHit = 1,
          currentX = 0, currentY = 0, suppressedX = 0, suppressedY = 0\<rparr>,
       outPOI =
         \<lparr>gotNewSensorData = True, hasDetection = False, poi_x = 0, poi_y = 0,
          distanceMM = 400, detectedAtMS = 1, calibrationDistMM = 1000, surroundingHits = 4\<rparr>\<rparr>,
      \<lparr>rawPOI =
         \<lparr>gotNewSensorData = True, hasDetection = True, poi_x = 0, poi_y = 0,
          distanceMM = 400, detectedAtMS = 2, calibrationDistMM = 1000, surroundingHits = 4\<rparr>,
       stateAfter =
         \<lparr>waitingFirstDetection = False, sequentialFramesWithHit = 2,
          currentX = 0, currentY = 0, suppressedX = 0, suppressedY = 0\<rparr>,
       outPOI =
         \<lparr>gotNewSensorData = True, hasDetection = True, poi_x = 0, poi_y = 0,
          distanceMM = 400, detectedAtMS = 2, calibrationDistMM = 1000, surroundingHits = 4\<rparr>\<rparr>,
      \<lparr>rawPOI =
         \<lparr>gotNewSensorData = False, hasDetection = False, poi_x = - 255, poi_y = - 255,
          distanceMM = - 1, detectedAtMS = - 1, calibrationDistMM = - 1, surroundingHits = 4\<rparr>,
       stateAfter =
         \<lparr>waitingFirstDetection = False, sequentialFramesWithHit = 2,
          currentX = 0, currentY = 0, suppressedX = 0, suppressedY = 0\<rparr>,
       outPOI =
         \<lparr>gotNewSensorData = False, hasDetection = False, poi_x = - 255, poi_y = - 255,
          distanceMM = - 1, detectedAtMS = - 1, calibrationDistMM = - 1, surroundingHits = 4\<rparr>\<rparr>]"
  by code_simp

lemma run_lossCycles:
  "run g8 trackingState poi0 lossCycles =
     [\<lparr>rawPOI =
         \<lparr>gotNewSensorData = True, hasDetection = False, poi_x = - 255, poi_y = - 255,
          distanceMM = 2001, detectedAtMS = - 1, calibrationDistMM = - 1, surroundingHits = 0\<rparr>,
       stateAfter =
         \<lparr>waitingFirstDetection = True, sequentialFramesWithHit = 5,
          currentX = 0, currentY = 0, suppressedX = 0, suppressedY = 0\<rparr>,
       outPOI =
         \<lparr>gotNewSensorData = True, hasDetection = False, poi_x = - 255, poi_y = - 255,
          distanceMM = 2001, detectedAtMS = - 1, calibrationDistMM = - 1, surroundingHits = 0\<rparr>\<rparr>,
      \<lparr>rawPOI =
         \<lparr>gotNewSensorData = False, hasDetection = False, poi_x = - 255, poi_y = - 255,
          distanceMM = - 1, detectedAtMS = - 1, calibrationDistMM = - 1, surroundingHits = 0\<rparr>,
       stateAfter =
         \<lparr>waitingFirstDetection = True, sequentialFramesWithHit = 5,
          currentX = 0, currentY = 0, suppressedX = 0, suppressedY = 0\<rparr>,
       outPOI =
         \<lparr>gotNewSensorData = False, hasDetection = False, poi_x = - 255, poi_y = - 255,
          distanceMM = - 1, detectedAtMS = - 1, calibrationDistMM = - 1, surroundingHits = 0\<rparr>\<rparr>,
      \<lparr>rawPOI =
         \<lparr>gotNewSensorData = True, hasDetection = True, poi_x = 0, poi_y = 0,
          distanceMM = 400, detectedAtMS = 3, calibrationDistMM = 1000, surroundingHits = 4\<rparr>,
       stateAfter =
         \<lparr>waitingFirstDetection = False, sequentialFramesWithHit = 1,
          currentX = 0, currentY = 0, suppressedX = 0, suppressedY = 0\<rparr>,
       outPOI =
         \<lparr>gotNewSensorData = True, hasDetection = False, poi_x = 0, poi_y = 0,
          distanceMM = 400, detectedAtMS = 3, calibrationDistMM = 1000, surroundingHits = 4\<rparr>\<rparr>,
      \<lparr>rawPOI =
         \<lparr>gotNewSensorData = False, hasDetection = False, poi_x = - 255, poi_y = - 255,
          distanceMM = - 1, detectedAtMS = - 1, calibrationDistMM = - 1, surroundingHits = 4\<rparr>,
       stateAfter =
         \<lparr>waitingFirstDetection = False, sequentialFramesWithHit = 1,
          currentX = 0, currentY = 0, suppressedX = 0, suppressedY = 0\<rparr>,
       outPOI =
         \<lparr>gotNewSensorData = False, hasDetection = False, poi_x = - 255, poi_y = - 255,
          distanceMM = - 1, detectedAtMS = - 1, calibrationDistMM = - 1, surroundingHits = 4\<rparr>\<rparr>,
      \<lparr>rawPOI =
         \<lparr>gotNewSensorData = True, hasDetection = True, poi_x = 0, poi_y = 0,
          distanceMM = 400, detectedAtMS = 5, calibrationDistMM = 1000, surroundingHits = 4\<rparr>,
       stateAfter =
         \<lparr>waitingFirstDetection = False, sequentialFramesWithHit = 2,
          currentX = 0, currentY = 0, suppressedX = 0, suppressedY = 0\<rparr>,
       outPOI =
         \<lparr>gotNewSensorData = True, hasDetection = True, poi_x = 0, poi_y = 0,
          distanceMM = 400, detectedAtMS = 5, calibrationDistMM = 1000, surroundingHits = 4\<rparr>\<rparr>]"
  by code_simp

section \<open>The claims\<close>

subsection \<open>C1: the classification of a cell\<close>

text \<open>
  C1. For every cell of a raw frame the entry of \<^verbatim>\<open>adjustedData\<close> is decided in this
  order: a status code outside \<open>{5, 6, 9}\<close> gives \<open>-1\<close> (bad status); else a distance
  that is 0 or above 2000 gives \<open>-2\<close> (out of range); else a distance within 50 of the
  cell's calibration value, or above it, gives \<open>-3\<close> (background); otherwise the entry
  is the distance itself (valid). The entry is a function of the status, the distance and
  the calibration value, and it reads as exactly one of the four tags.
\<close>

theorem processMeasuredData_classifies:
  assumes "globals_ok g" and "frame_ok m" and "i < nat (imageResolution g)"
  shows "processMeasuredData g m ! i =
           (if target_status m ! i \<notin> {5, 6, 9} then - 1
            else if distance_mm m ! i = 0 \<or> distance_mm m ! i > 2000 then - 2
            else if \<bar>distance_mm m ! i - calibration g ! i\<bar> \<le> 50
                    \<or> distance_mm m ! i > calibration g ! i then - 3
            else distance_mm m ! i) \<and>
         classification (processMeasuredData g m ! i) =
           Some (if target_status m ! i \<notin> {5, 6, 9} then BadStatus
                 else if distance_mm m ! i = 0 \<or> distance_mm m ! i > 2000 then OutOfRange
                 else if \<bar>distance_mm m ! i - calibration g ! i\<bar> \<le> 50
                         \<or> distance_mm m ! i > calibration g ! i then Background
                 else Valid (distance_mm m ! i))"
proof -
  have d: "0 \<le> distance_mm m ! i"
    using assms frame_ok_nonneg in_grid_lt_64 by blast
  show ?thesis
    using d assms(3)
    by (auto simp add: processMeasuredData_nth adjustCell_cases [OF d] classification_def)
qed

text \<open>The cells 0 (valid) and 2 (background) of the frame with the block at cell 0.\<close>

theorem processMeasuredData_classifies_witness:
  "globals_ok g8 \<and> frame_ok (blockFrame 0) \<and>
   processMeasuredData g8 (blockFrame 0) ! 0 = 400 \<and>
   classification (processMeasuredData g8 (blockFrame 0) ! 0) = Some (Valid 400) \<and>
   processMeasuredData g8 (blockFrame 0) ! 2 = - 3 \<and>
   classification (processMeasuredData g8 (blockFrame 0) ! 2) = Some Background"
proof -
  have f: "frame_ok (blockFrame 0)" by (simp add: blockFrame_ok)
  have i: "0 < nat (imageResolution g8)" "2 < nat (imageResolution g8)"
    by (simp_all add: g8_def)
  show ?thesis
    using processMeasuredData_classifies [OF g8_ok f i(1)]
      processMeasuredData_classifies [OF g8_ok f i(2)] g8_ok f
    by (simp add: g8_def blockFrame_def classification_def)
qed

subsection \<open>C2: the distance reported when no cell qualifies\<close>

text \<open>
  C2. The spec has \<^verbatim>\<open>getPOI\<close> return, for a frame in which no cell qualifies, no detection
  with \<open>x = y = -255\<close> and \<open>distanceMM = -1\<close>. The source does so for every field but
  the distance. On the frame in which every status is bad, every cell is classified
  \<open>-1\<close> and none qualifies, and \<^verbatim>\<open>getPOI\<close> returns no detection with \<open>x = y = -255\<close> and
  \<open>distanceMM = 2001\<close>: the field was set to \<^verbatim>\<open>MAX_CALIBRATION + 1\<close> before the scan, as
  the closest distance found so far, and is not set back to \<open>-1\<close>.
\<close>

theorem getPOI_no_qualifying_cell_distance:
  "frame_ok badFrame \<and>
   list_all (\<lambda>v. v = - 1) (processMeasuredData g8 badFrame) \<and>
   getPOI g8 (NewFrame badFrame) 7 poi0 =
     \<lparr>gotNewSensorData = True, hasDetection = False, poi_x = - 255, poi_y = - 255,
      distanceMM = 2001, detectedAtMS = - 1, calibrationDistMM = - 1, surroundingHits = 0\<rparr>"
  by code_simp

subsection \<open>C3: a detection at another cell counts as a hit at the tracked cell\<close>

text \<open>
  C3. The spec has the filter report a detection only at the second consecutive cycle
  with a new frame that detects the same cell, up to a tolerance, and has a detection at a
  cell outside the tolerance of the tracked cell re-anchor the tracked cell and reset the
  count of hits to 1 instead of confirming. The comments of the source say the same
  (\<^verbatim>\<open>allow some spatial jitter\<close>, \<^verbatim>\<open>same x,y so increment frame counter\<close>,
  \<^verbatim>\<open>x,y has changed so this becomes the first frame\<close>), and the branch that re-anchors is
  there; but the source assigns the constant 0 to both spatial distances, so its test
  against 2 always passes and that branch is never taken. On the run of two frames with
  the block at the cells (0, 0) and (5, 5), the second frame detects the cell (5, 5), five
  columns and five rows from the tracked cell (0, 0), and the cycle reports the detection:
  the count of hits is 2, not 1, and the tracked cell is still (0, 0). The part of the
  sentence that does not depend on the cells holds
  (\<open>filtered_detection_needs_previous_hit\<close> above): no detection is reported before the
  second consecutive cycle with a detection.
\<close>

theorem second_hit_at_other_cell_confirms:
  "hasDetection (rawPOI (run g8 filter_init poi0 twoCellCycles ! 0)) \<and>
   poi_x (rawPOI (run g8 filter_init poi0 twoCellCycles ! 0)) = 0 \<and>
   poi_y (rawPOI (run g8 filter_init poi0 twoCellCycles ! 0)) = 0 \<and>
   currentX (stateAfter (run g8 filter_init poi0 twoCellCycles ! 0)) = 0 \<and>
   currentY (stateAfter (run g8 filter_init poi0 twoCellCycles ! 0)) = 0 \<and>
   hasDetection (rawPOI (run g8 filter_init poi0 twoCellCycles ! 1)) \<and>
   poi_x (rawPOI (run g8 filter_init poi0 twoCellCycles ! 1)) = 5 \<and>
   poi_y (rawPOI (run g8 filter_init poi0 twoCellCycles ! 1)) = 5 \<and>
   \<not> \<bar>currentX (stateAfter (run g8 filter_init poi0 twoCellCycles ! 0)) -
        poi_x (rawPOI (run g8 filter_init poi0 twoCellCycles ! 1))\<bar> < 2 \<and>
   \<not> \<bar>currentY (stateAfter (run g8 filter_init poi0 twoCellCycles ! 0)) -
        poi_y (rawPOI (run g8 filter_init poi0 twoCellCycles ! 1))\<bar> < 2 \<and>
   hasDetection (outPOI (run g8 filter_init poi0 twoCellCycles ! 1)) \<and>
   sequentialFramesWithHit (stateAfter (run g8 filter_init poi0 twoCellCycles ! 1)) = 2 \<and>
   currentX (stateAfter (run g8 filter_init poi0 twoCellCycles ! 1)) = 0 \<and>
   currentY (stateAfter (run g8 filter_init poi0 twoCellCycles ! 1)) = 0"
  by (simp add: run_twoCellCycles)

subsection \<open>C4: a cycle without a new frame\<close>

text \<open>
  C4, as the source has it. When the sensor has no new frame (no data ready, or the read
  fails), \<^verbatim>\<open>getPOITemporalFiltered\<close> leaves all its static variables unchanged and
  returns the struct as \<^verbatim>\<open>getPOI\<close> reset it: no new data, no detection,
  \<open>x = y = -255\<close>, distance, time and calibration distance \<open>-1\<close>; only
  \<^verbatim>\<open>surroundingHits\<close> keeps the value the caller handed in.
\<close>

theorem no_new_frame_keeps_state_resets_output:
  "getPOITemporalFiltered g st NotReady ms p = (st, resetPOI p) \<and>
   getPOITemporalFiltered g st ReadFailed ms p = (st, resetPOI p)"
  by (simp add: getPOITemporalFiltered_def getPOI_not_NewFrame resetPOI_def)

text \<open>
  The sentence of the spec fails on the run of two frames with the block and a cycle without a
  new frame: the second cycle returns the detection at (0, 0), 400 mm; the third one
  returns the reset struct, not the output of the second.
\<close>

theorem no_new_frame_output_is_not_previous_output:
  "\<not> gotNewSensorData (rawPOI (run g8 filter_init poi0 pauseCycles ! 2)) \<and>
   hasDetection (outPOI (run g8 filter_init poi0 pauseCycles ! 1)) \<and>
   poi_x (outPOI (run g8 filter_init poi0 pauseCycles ! 1)) = 0 \<and>
   poi_y (outPOI (run g8 filter_init poi0 pauseCycles ! 1)) = 0 \<and>
   distanceMM (outPOI (run g8 filter_init poi0 pauseCycles ! 1)) = 400 \<and>
   \<not> hasDetection (outPOI (run g8 filter_init poi0 pauseCycles ! 2)) \<and>
   poi_x (outPOI (run g8 filter_init poi0 pauseCycles ! 2)) = - 255 \<and>
   poi_y (outPOI (run g8 filter_init poi0 pauseCycles ! 2)) = - 255 \<and>
   distanceMM (outPOI (run g8 filter_init poi0 pauseCycles ! 2)) = - 1 \<and>
   outPOI (run g8 filter_init poi0 pauseCycles ! 2) \<noteq>
     outPOI (run g8 filter_init poi0 pauseCycles ! 1) \<and>
   stateAfter (run g8 filter_init poi0 pauseCycles ! 2) =
     stateAfter (run g8 filter_init poi0 pauseCycles ! 1)"
  by (simp add: run_pauseCycles)

subsection \<open>C5: the selected cell has at least three valid cells around it\<close>

text \<open>
  C5. For every classified frame, if \<^verbatim>\<open>getPOI\<close> reports a detection, the cell it selected
  lies in the grid and its support score is at least 3: the score \<^verbatim>\<open>scoreZone\<close> computes,
  which is the number of valid cells in the 3 by 3 neighbourhood of the cell, clipped at
  the edges of the grid, and which \<^verbatim>\<open>getPOI\<close> records in \<^verbatim>\<open>surroundingHits\<close>.
\<close>

theorem getPOI_support_at_least_three:
  assumes "globals_ok g" and "frame_ok m"
    and "p = getPOI g (NewFrame m) ms p0" and "hasDetection p"
  shows "0 \<le> poi_x p \<and> poi_x p < imageWidth g \<and> 0 \<le> poi_y p \<and> poi_y p < imageWidth g \<and>
         3 \<le> scoreZone g (poi_y p * imageWidth g + poi_x p) (processMeasuredData g m) \<and>
         scoreZone g (poi_y p * imageWidth g + poi_x p) (processMeasuredData g m) =
           support g (processMeasuredData g m) (poi_x p) (poi_y p) \<and>
         surroundingHits p = support g (processMeasuredData g m) (poi_x p) (poi_y p)"
proof -
  obtain k where k: "selects g (processMeasuredData g m) (nat (imageResolution g)) p k"
    using getPOI_detection_selects assms by blast
  have z: "poi_y p * imageWidth g + poi_x p = int k"
    and r: "0 \<le> poi_x p \<and> poi_x p < imageWidth g \<and> 0 \<le> poi_y p \<and> poi_y p < imageWidth g"
    using selects_zone [OF assms(1) k] by simp_all
  have "validate (scoreZone g (int k) (processMeasuredData g m))"
    using k by (simp add: selects_def qualifies_def)
  then have "3 \<le> scoreZone g (int k) (processMeasuredData g m)"
    by (simp add: validate_def split: if_splits)
  moreover have "surroundingHits p = scoreZone g (int k) (processMeasuredData g m)"
    using k by (simp add: selects_def)
  moreover have "scoreZone g (int k) (processMeasuredData g m) =
      support g (processMeasuredData g m) (poi_x p) (poi_y p)"
    using scoreZone_support [of "poi_x p" g "poi_y p" "processMeasuredData g m"] r
    by (simp add: z)
  ultimately show ?thesis using r by (simp add: z)
qed

theorem getPOI_support_at_least_three_witness:
  "globals_ok g8 \<and> frame_ok (blockFrame 0) \<and>
   hasDetection (getPOI g8 (NewFrame (blockFrame 0)) 7 poi0) \<and>
   poi_x (getPOI g8 (NewFrame (blockFrame 0)) 7 poi0) = 0 \<and>
   poi_y (getPOI g8 (NewFrame (blockFrame 0)) 7 poi0) = 0 \<and>
   scoreZone g8 0 (processMeasuredData g8 (blockFrame 0)) = 4 \<and>
   support g8 (processMeasuredData g8 (blockFrame 0)) 0 0 = 4 \<and>
   surroundingHits (getPOI g8 (NewFrame (blockFrame 0)) 7 poi0) = 4"
proof -
  have f: "frame_ok (blockFrame 0)" by (simp add: blockFrame_ok)
  have d: "hasDetection (getPOI g8 (NewFrame (blockFrame 0)) 7 poi0)"
    by (simp add: getPOI_block0)
  have s: "scoreZone g8 0 (processMeasuredData g8 (blockFrame 0)) = 4" by code_simp
  have W: "imageWidth g8 = 8" by (simp add: g8_def)
  show ?thesis
    using getPOI_support_at_least_three [OF g8_ok f refl d] g8_ok f d s
    by (simp add: getPOI_block0 W)
qed

subsection \<open>C6: of two equally close cells the first in scan order wins\<close>

text \<open>
  C6. Let a classified frame hold two qualifying cells \<open>a\<close> and \<open>b\<close> at the same distance,
  \<open>a\<close> before \<open>b\<close> in row-major order (\<open>y\<close> ascending, then \<open>x\<close> ascending). Then
  \<^verbatim>\<open>getPOI\<close> reports a detection and never returns \<open>b\<close>; and when the two are the
  closest qualifying cells and \<open>a\<close> is the first cell at that distance, \<^verbatim>\<open>getPOI\<close> returns
  \<open>a\<close>: a later cell replaces the closest one found so far only if it is strictly closer.
\<close>

theorem getPOI_tie_first_in_scan_order:
  assumes g: "globals_ok g" and m: "frame_ok m"
    and adj: "adj = processMeasuredData g m"
    and p: "p = getPOI g (NewFrame m) ms p0"
    and a: "0 \<le> xa" "xa < imageWidth g" "0 \<le> ya" "ya < imageWidth g"
    and b: "0 \<le> xb" "xb < imageWidth g" "0 \<le> yb" "yb < imageWidth g"
    and order: "ya < yb \<or> (ya = yb \<and> xa < xb)"
    and ca: "qualifies g adj (ya * imageWidth g + xa)"
    and cb: "qualifies g adj (yb * imageWidth g + xb)"
    and tie: "adj ! nat (ya * imageWidth g + xa) = adj ! nat (yb * imageWidth g + xb)"
  shows "hasDetection p \<and> (poi_x p, poi_y p) \<noteq> (xb, yb) \<and>
         ((\<forall>x y. 0 \<le> x \<and> x < imageWidth g \<and> 0 \<le> y \<and> y < imageWidth g \<and>
                 qualifies g adj (y * imageWidth g + x) \<longrightarrow>
                 adj ! nat (ya * imageWidth g + xa) \<le> adj ! nat (y * imageWidth g + x)) \<and>
          (\<forall>x y. 0 \<le> x \<and> x < imageWidth g \<and> 0 \<le> y \<and> y < imageWidth g \<and>
                 (y < ya \<or> (y = ya \<and> x < xa)) \<and> qualifies g adj (y * imageWidth g + x) \<longrightarrow>
                 adj ! nat (y * imageWidth g + x) \<noteq> adj ! nat (ya * imageWidth g + xa))
          \<longrightarrow> poi_x p = xa \<and> poi_y p = ya \<and>
              distanceMM p = adj ! nat (ya * imageWidth g + xa))"
proof -
  let ?W = "imageWidth g"
  let ?N = "nat (imageResolution g)"
  define za where "za = nat (ya * ?W + xa)"
  define zb where "zb = nat (yb * ?W + xb)"
  have nonneg: "0 \<le> ya * ?W + xa" "0 \<le> yb * ?W + xb" using a b by simp_all
  have za: "int za = ya * ?W + xa" and zb: "int zb = yb * ?W + xb"
    using nonneg by (simp_all add: za_def zb_def)
  have lt: "za < zb"
    using row_major_less [OF a(1,2) b(1) order] za zb by linarith
  have "(ya + 1) * ?W \<le> ?W * ?W" "(yb + 1) * ?W \<le> ?W * ?W"
    using a b by (auto intro!: mult_right_mono)
  then have "int za < ?W * ?W" "int zb < ?W * ?W"
    using a b za zb by (simp_all add: algebra_simps)
  then have inN: "za < ?N" "zb < ?N" using g by (simp_all add: globals_ok_def)
  have cza: "qualifies g adj (int za)" and czb: "qualifies g adj (int zb)"
    using ca cb za zb by simp_all
  then have "\<exists>z<?N. qualifies g (processMeasuredData g m) (int z)"
    using inN adj by auto
  then obtain k where k: "selects g adj ?N p k"
    using getPOI_selects [OF g m, of ms p0] adj p by auto
  have zone: "poi_y p * ?W + poi_x p = int k"
    and r: "0 \<le> poi_x p" "poi_x p < ?W"
    using selects_zone [OF g k] by simp_all
  have least: "\<And>z. z < ?N \<Longrightarrow> qualifies g adj (int z) \<Longrightarrow> adj ! k \<le> adj ! z"
    and first: "\<And>z. z < k \<Longrightarrow> qualifies g adj (int z) \<Longrightarrow> adj ! k < adj ! z"
    and kN: "k < ?N" and ck: "qualifies g adj (int k)"
    and d: "distanceMM p = adj ! k" and det: "hasDetection p"
    using k by (simp_all add: selects_def)
  have tie': "adj ! za = adj ! zb" using tie by (simp add: za_def zb_def)
  have "k \<noteq> zb"
  proof
    assume "k = zb"
    then have "adj ! k < adj ! za" using first lt cza by simp
    then show False using tie' \<open>k = zb\<close> by simp
  qed
  then have notb: "(poi_x p, poi_y p) \<noteq> (xb, yb)" using zone zb by auto
  have sel: "poi_x p = xa \<and> poi_y p = ya \<and> distanceMM p = adj ! nat (ya * ?W + xa)"
    if nearest: "\<forall>x y. 0 \<le> x \<and> x < ?W \<and> 0 \<le> y \<and> y < ?W \<and> qualifies g adj (y * ?W + x) \<longrightarrow>
                 adj ! nat (ya * ?W + xa) \<le> adj ! nat (y * ?W + x)"
      and fst: "\<forall>x y. 0 \<le> x \<and> x < ?W \<and> 0 \<le> y \<and> y < ?W \<and>
                 (y < ya \<or> (y = ya \<and> x < xa)) \<and> qualifies g adj (y * ?W + x) \<longrightarrow>
                 adj ! nat (y * ?W + x) \<noteq> adj ! nat (ya * ?W + xa)"
  proof -
    have py: "0 \<le> poi_y p" "poi_y p < ?W" using selects_zone [OF g k] by simp_all
    have ck': "qualifies g adj (poi_y p * ?W + poi_x p)" using ck zone by simp
    have "adj ! za \<le> adj ! k"
      using nearest r py ck' zone by (force simp add: za_def)
    moreover have "adj ! k \<le> adj ! za" using least inN cza by simp
    ultimately have eq: "adj ! k = adj ! za" by simp
    have "\<not> za < k" using first cza eq by force
    moreover have "\<not> k < za"
    proof
      assume "k < za"
      then have "poi_y p * ?W + poi_x p < ya * ?W + xa" using zone za by simp
      then have "poi_y p < ya \<or> (poi_y p = ya \<and> poi_x p < xa)"
        using row_major_less [of xa ?W "poi_x p" ya "poi_y p"] a r
        by (metis linorder_neqE_linordered_idom not_less_iff_gr_or_eq)
      then have "adj ! nat (poi_y p * ?W + poi_x p) \<noteq> adj ! nat (ya * ?W + xa)"
        using fst r py ck' by blast
      then show False using eq zone by (simp add: za_def)
    qed
    ultimately have "k = za" by simp
    then have "poi_y p * ?W + poi_x p = ya * ?W + xa" using zone za by simp
    then have "poi_x p = xa \<and> poi_y p = ya"
      using grid_cell_unique [OF r a(1,2)] by simp
    then show ?thesis using d \<open>k = za\<close> by (simp add: za_def)
  qed
  show ?thesis using det notb sel by blast
qed


theorem getPOI_tie_first_in_scan_order_witness:
  "globals_ok g8 \<and> frame_ok tieFrame \<and>
   qualifies g8 (processMeasuredData g8 tieFrame) (0 * imageWidth g8 + 0) \<and>
   qualifies g8 (processMeasuredData g8 tieFrame) (5 * imageWidth g8 + 5) \<and>
   processMeasuredData g8 tieFrame ! nat (0 * imageWidth g8 + 0) =
     processMeasuredData g8 tieFrame ! nat (5 * imageWidth g8 + 5) \<and>
   hasDetection (getPOI g8 (NewFrame tieFrame) 7 poi0) \<and>
   (poi_x (getPOI g8 (NewFrame tieFrame) 7 poi0), poi_y (getPOI g8 (NewFrame tieFrame) 7 poi0))
     \<noteq> (5, 5) \<and>
   poi_x (getPOI g8 (NewFrame tieFrame) 7 poi0) = 0 \<and>
   poi_y (getPOI g8 (NewFrame tieFrame) 7 poi0) = 0 \<and>
   distanceMM (getPOI g8 (NewFrame tieFrame) 7 poi0) = 400"
proof -
  let ?adj = "processMeasuredData g8 tieFrame"
  have W: "imageWidth g8 = 8" by (simp add: g8_def)
  have qa: "qualifies g8 ?adj (0 * imageWidth g8 + 0)" by code_simp
  have qb: "qualifies g8 ?adj (5 * imageWidth g8 + 5)" by code_simp
  have tie: "?adj ! nat (0 * imageWidth g8 + 0) = ?adj ! nat (5 * imageWidth g8 + 5)"
    by code_simp
  have a0: "?adj ! nat (0 * imageWidth g8 + 0) = 400" by code_simp
  have nearest: "\<forall>x y. 0 \<le> x \<and> x < imageWidth g8 \<and> 0 \<le> y \<and> y < imageWidth g8 \<and>
        qualifies g8 ?adj (y * imageWidth g8 + x) \<longrightarrow>
        ?adj ! nat (0 * imageWidth g8 + 0) \<le> ?adj ! nat (y * imageWidth g8 + x)"
  proof (intro allI impI)
    fix x y :: int
    assume h: "0 \<le> x \<and> x < imageWidth g8 \<and> 0 \<le> y \<and> y < imageWidth g8 \<and>
        qualifies g8 ?adj (y * imageWidth g8 + x)"
    then have "0 \<le> x \<and> x < 8 \<and> 0 \<le> y \<and> y < 8" by (simp add: W)
    then have "nat (y * 8 + x) < 64" by linarith
    then have "nat (y * imageWidth g8 + x) < length ?adj"
      by (simp add: g8_def)
    then have "?adj ! nat (y * imageWidth g8 + x) \<in> set ?adj" by (rule nth_mem)
    moreover have "0 < ?adj ! nat (y * imageWidth g8 + x)"
      using h by (simp add: qualifies_def)
    ultimately have "400 \<le> ?adj ! nat (y * imageWidth g8 + x)"
      using tieFrame_positive by (simp add: list_all_iff)
    then show "?adj ! nat (0 * imageWidth g8 + 0) \<le> ?adj ! nat (y * imageWidth g8 + x)"
      using a0 by simp
  qed
  have first: "\<forall>x y. 0 \<le> x \<and> x < imageWidth g8 \<and> 0 \<le> y \<and> y < imageWidth g8 \<and>
        (y < 0 \<or> (y = 0 \<and> x < 0)) \<and> qualifies g8 ?adj (y * imageWidth g8 + x) \<longrightarrow>
        ?adj ! nat (y * imageWidth g8 + x) \<noteq> ?adj ! nat (0 * imageWidth g8 + 0)"
    by auto
  have "hasDetection (getPOI g8 (NewFrame tieFrame) 7 poi0) \<and>
        (poi_x (getPOI g8 (NewFrame tieFrame) 7 poi0),
         poi_y (getPOI g8 (NewFrame tieFrame) 7 poi0)) \<noteq> (5, 5) \<and>
        poi_x (getPOI g8 (NewFrame tieFrame) 7 poi0) = 0 \<and>
        poi_y (getPOI g8 (NewFrame tieFrame) 7 poi0) = 0 \<and>
        distanceMM (getPOI g8 (NewFrame tieFrame) 7 poi0) =
          ?adj ! nat (0 * imageWidth g8 + 0)"
    using getPOI_tie_first_in_scan_order [OF g8_ok tieFrame_ok refl refl _ _ _ _ _ _ _ _ _ qa qb tie,
        of 7 poi0] nearest first
    by (simp add: W)
  then show ?thesis
    using g8_ok tieFrame_ok qa qb tie a0 by simp
qed

subsection \<open>C7: a lost detection resets the count\<close>

text \<open>
  C7. In a run from any state (any count of hits), let a cycle have a new frame without a
  detection. Then the next cycle with a detection reports none, with the count of hits
  at 1; and if the next cycle with a new frame after that one has a detection too, that
  cycle reports it, with the count at 2. So after a loss one detection is not enough, and
  two consecutive ones are.
\<close>

theorem detection_loss_resets_debounce:
  assumes j: "j < length cs" and ij: "i < j"
    and new: "gotNewSensorData (rawPOI (run g st p cs ! i))"
    and loss: "\<not> hasDetection (rawPOI (run g st p cs ! i))"
    and between: "\<forall>k. i < k \<and> k < j \<longrightarrow> \<not> hasDetection (rawPOI (run g st p cs ! k))"
    and hit: "hasDetection (rawPOI (run g st p cs ! j))"
  shows "\<not> hasDetection (outPOI (run g st p cs ! j)) \<and>
         sequentialFramesWithHit (stateAfter (run g st p cs ! j)) = 1 \<and>
         (\<forall>l. j < l \<and> l < length cs \<and> hasDetection (rawPOI (run g st p cs ! l)) \<and>
              (\<forall>k. j < k \<and> k < l \<longrightarrow> \<not> gotNewSensorData (rawPOI (run g st p cs ! k)))
              \<longrightarrow> hasDetection (outPOI (run g st p cs ! l)) \<and>
                  sequentialFramesWithHit (stateAfter (run g st p cs ! l)) = 2)"
proof -
  let ?tr = "run g st p cs"
  obtain j' where j': "j = Suc j'" using ij by (cases j) auto
  have trj: "?tr ! j = cycle g (stateAfter (?tr ! j')) (outPOI (?tr ! j')) (cs ! j)"
    using j unfolding j' by (rule run_nth_Suc)
  have "i < length cs" using j ij by simp
  then obtain s' p' where "?tr ! i = cycle g s' p' (cs ! i)"
    using run_nth_cycle by blast
  then have wi: "waitingFirstDetection (stateAfter (?tr ! i))"
    using new loss cycle_loss by metis
  have wj': "waitingFirstDetection (stateAfter (?tr ! j'))"
  proof (rule waiting_persists [OF _ _ wi])
    show "i \<le> j'" using ij j' by simp
    show "j' < length cs" using j j' by simp
    show "\<forall>k. i < k \<and> k \<le> j' \<longrightarrow> \<not> hasDetection (rawPOI (?tr ! k))"
      using between j' by simp
  qed
  have seqj: "sequentialFramesWithHit (stateAfter (?tr ! j)) = 1"
    and nwj: "\<not> waitingFirstDetection (stateAfter (?tr ! j))"
    using cycle_hit(1,2) [OF hit [unfolded trj]] wj' unfolding trj by simp_all
  have outj: "\<not> hasDetection (outPOI (?tr ! j))"
    using cycle_hit(5) [OF hit [unfolded trj]] seqj unfolding trj by simp
  have next_hit: "hasDetection (outPOI (?tr ! l)) \<and>
      sequentialFramesWithHit (stateAfter (?tr ! l)) = 2"
    if l: "j < l" "l < length cs" and hl: "hasDetection (rawPOI (?tr ! l))"
      and quiet: "\<forall>k. j < k \<and> k < l \<longrightarrow> \<not> gotNewSensorData (rawPOI (?tr ! k))" for l
  proof -
    obtain l' where l': "l = Suc l'" using l(1) by (cases l) auto
    have trl: "?tr ! l = cycle g (stateAfter (?tr ! l')) (outPOI (?tr ! l')) (cs ! l)"
      using l(2) unfolding l' by (rule run_nth_Suc)
    have "stateAfter (?tr ! l') = stateAfter (?tr ! j)"
    proof (rule state_persists)
      show "j \<le> l'" using l(1) l' by simp
      show "l' < length cs" using l(2) l' by simp
      show "\<forall>k. j < k \<and> k \<le> l' \<longrightarrow> \<not> gotNewSensorData (rawPOI (?tr ! k))"
        using quiet l' by simp
    qed
    then have before: "\<not> waitingFirstDetection (stateAfter (?tr ! l'))"
      "sequentialFramesWithHit (stateAfter (?tr ! l')) = 1"
      using seqj nwj by simp_all
    have seql: "sequentialFramesWithHit (stateAfter (?tr ! l)) = 2"
      using cycle_hit(2) [OF hl [unfolded trl]] before unfolding trl by simp
    then have "hasDetection (outPOI (?tr ! l))"
      using cycle_hit(5) [OF hl [unfolded trl]] unfolding trl by simp
    then show ?thesis using seql by simp
  qed
  show ?thesis using outj seqj next_hit by blast
qed

text \<open>The run from a state with five hits counted: loss, pause, hit, pause, hit.\<close>

theorem detection_loss_resets_debounce_witness:
  "2 < length lossCycles \<and> (0::nat) < 2 \<and>
   gotNewSensorData (rawPOI (run g8 trackingState poi0 lossCycles ! 0)) \<and>
   \<not> hasDetection (rawPOI (run g8 trackingState poi0 lossCycles ! 0)) \<and>
   \<not> hasDetection (rawPOI (run g8 trackingState poi0 lossCycles ! 1)) \<and>
   hasDetection (rawPOI (run g8 trackingState poi0 lossCycles ! 2)) \<and>
   sequentialFramesWithHit trackingState = 5 \<and>
   \<not> hasDetection (outPOI (run g8 trackingState poi0 lossCycles ! 2)) \<and>
   sequentialFramesWithHit (stateAfter (run g8 trackingState poi0 lossCycles ! 2)) = 1 \<and>
   \<not> gotNewSensorData (rawPOI (run g8 trackingState poi0 lossCycles ! 3)) \<and>
   hasDetection (rawPOI (run g8 trackingState poi0 lossCycles ! 4)) \<and>
   hasDetection (outPOI (run g8 trackingState poi0 lossCycles ! 4)) \<and>
   sequentialFramesWithHit (stateAfter (run g8 trackingState poi0 lossCycles ! 4)) = 2"
proof -
  let ?tr = "run g8 trackingState poi0 lossCycles"
  have len: "2 < length lossCycles" "4 < length lossCycles" by (simp_all add: lossCycles_def)
  have new: "gotNewSensorData (rawPOI (?tr ! 0))"
    and loss: "\<not> hasDetection (rawPOI (?tr ! 0))"
    and r1: "\<not> hasDetection (rawPOI (?tr ! 1))"
    and hit: "hasDetection (rawPOI (?tr ! 2))"
    and r3: "\<not> gotNewSensorData (rawPOI (?tr ! 3))"
    and r4: "hasDetection (rawPOI (?tr ! 4))"
    by (simp_all add: run_lossCycles)
  have between: "\<forall>k. 0 < k \<and> k < 2 \<longrightarrow> \<not> hasDetection (rawPOI (?tr ! k))"
  proof (intro allI impI)
    fix k :: nat
    assume "0 < k \<and> k < 2"
    then have "k = 1" by arith
    then show "\<not> hasDetection (rawPOI (?tr ! k))" using r1 by simp
  qed
  have quiet: "\<forall>k. 2 < k \<and> k < 4 \<longrightarrow> \<not> gotNewSensorData (rawPOI (?tr ! k))"
  proof (intro allI impI)
    fix k :: nat
    assume "2 < k \<and> k < 4"
    then have "k = 3" by arith
    then show "\<not> gotNewSensorData (rawPOI (?tr ! k))" using r3 by simp
  qed
  have zero_two: "(0::nat) < 2" by simp
  note inst = detection_loss_resets_debounce [OF len(1) zero_two new loss between hit]
  from inst have a: "\<not> hasDetection (outPOI (?tr ! 2))"
    and b: "sequentialFramesWithHit (stateAfter (?tr ! 2)) = 1" by blast+
  from inst len(2) r4 quiet have c: "hasDetection (outPOI (?tr ! 4)) \<and>
      sequentialFramesWithHit (stateAfter (?tr ! 4)) = 2"
    by (metis numeral_less_iff semiring_norm(76) semiring_norm(78))
  show ?thesis
    using len new loss r1 hit r3 r4 a b c by (simp add: trackingState_def)
qed

subsection \<open>C8: the unchanged scene is background\<close>

text \<open>
  C8. A cell with a good status (5, 6 or 9) whose distance equals its calibration value,
  a value in \<open>[1, MAX_CALIBRATION]\<close>, is classified as background: its entry of
  \<^verbatim>\<open>adjustedData\<close> is \<open>-3\<close>. So when every calibration value lies in
  \<open>[1, MAX_CALIBRATION]\<close>, a raw frame in which every status is good and the distances are
  the calibration values is background in every cell, and no cell of it is valid.
\<close>

theorem unchanged_scene_is_background:
  assumes "globals_ok g"
  shows "(\<forall>i<nat (imageResolution g).
            (target_status m ! i = 5 \<or> target_status m ! i = 6 \<or> target_status m ! i = 9) \<and>
            1 \<le> calibration g ! i \<and> calibration g ! i \<le> MAX_CALIBRATION \<and>
            distance_mm m ! i = calibration g ! i
            \<longrightarrow> processMeasuredData g m ! i = - 3) \<and>
         (list_all (\<lambda>c. 1 \<le> c \<and> c \<le> MAX_CALIBRATION) (calibration g) \<and>
          list_all (\<lambda>s. s = 5 \<or> s = 6 \<or> s = 9) (target_status m) \<and>
          length (target_status m) = 64 \<and>
          distance_mm m = calibration g
          \<longrightarrow> processMeasuredData g m = replicate (nat (imageResolution g)) (- 3) \<and>
              list_all (\<lambda>v. \<not> 0 < v) (processMeasuredData g m))"
proof -
  have cell: "processMeasuredData g m ! i = - 3"
    if i: "i < nat (imageResolution g)"
      and s: "target_status m ! i = 5 \<or> target_status m ! i = 6 \<or> target_status m ! i = 9"
      and c: "1 \<le> calibration g ! i" "calibration g ! i \<le> MAX_CALIBRATION"
      and d: "distance_mm m ! i = calibration g ! i" for i
    using that by (auto simp add: processMeasuredData_nth adjustCell_cases MAX_CALIBRATION_def)
  have frame: "processMeasuredData g m = replicate (nat (imageResolution g)) (- 3) \<and>
      list_all (\<lambda>v. \<not> 0 < v) (processMeasuredData g m)"
    if cal: "list_all (\<lambda>c. 1 \<le> c \<and> c \<le> MAX_CALIBRATION) (calibration g)"
      and st: "list_all (\<lambda>s. s = 5 \<or> s = 6 \<or> s = 9) (target_status m)"
      and len: "length (target_status m) = 64"
      and eq: "distance_mm m = calibration g"
  proof -
    have "processMeasuredData g m ! i = - 3" if i: "i < nat (imageResolution g)" for i
    proof -
      have i64: "i < 64" using assms i by (rule in_grid_lt_64)
      then have "1 \<le> calibration g ! i \<and> calibration g ! i \<le> MAX_CALIBRATION"
        using assms cal by (simp add: list_all_length globals_ok_def)
      moreover have "target_status m ! i = 5 \<or> target_status m ! i = 6 \<or>
          target_status m ! i = 9"
        using st len i64 by (simp add: list_all_length)
      ultimately show ?thesis using cell [OF i] eq by simp
    qed
    then have "processMeasuredData g m = replicate (nat (imageResolution g)) (- 3)"
      by (simp add: list_eq_iff_nth_eq)
    then show ?thesis by (simp add: list_all_length)
  qed
  show ?thesis using cell frame by blast
qed

text \<open>The grid calibrated at 1000 mm and the frame of the same scene.\<close>

theorem unchanged_scene_is_background_witness:
  "globals_ok g8 \<and>
   list_all (\<lambda>c. 1 \<le> c \<and> c \<le> MAX_CALIBRATION) (calibration g8) \<and>
   list_all (\<lambda>s. s = 5 \<or> s = 6 \<or> s = 9) (target_status sceneFrame) \<and>
   length (target_status sceneFrame) = 64 \<and>
   distance_mm sceneFrame = calibration g8 \<and>
   processMeasuredData g8 sceneFrame ! 0 = - 3 \<and>
   processMeasuredData g8 sceneFrame = replicate 64 (- 3) \<and>
   list_all (\<lambda>v. \<not> 0 < v) (processMeasuredData g8 sceneFrame)"
proof -
  have c: "list_all (\<lambda>c. 1 \<le> c \<and> c \<le> MAX_CALIBRATION) (calibration g8)"
    by (simp add: g8_def MAX_CALIBRATION_def list_all_length)
  have s: "list_all (\<lambda>s. s = 5 \<or> s = 6 \<or> s = 9) (target_status sceneFrame)"
    by (simp add: sceneFrame_def list_all_length)
  have l: "length (target_status sceneFrame) = 64" by (simp add: sceneFrame_def)
  have d: "distance_mm sceneFrame = calibration g8" by (simp add: sceneFrame_def g8_def)
  have cell0: "(0::nat) < nat (imageResolution g8) \<and>
      (target_status sceneFrame ! 0 = 5 \<or> target_status sceneFrame ! 0 = 6 \<or>
       target_status sceneFrame ! 0 = 9) \<and>
      1 \<le> calibration g8 ! 0 \<and> calibration g8 ! 0 \<le> MAX_CALIBRATION \<and>
      distance_mm sceneFrame ! 0 = calibration g8 ! 0"
    by (simp add: sceneFrame_def g8_def MAX_CALIBRATION_def)
  note inst = unchanged_scene_is_background [OF g8_ok, of sceneFrame]
  have "processMeasuredData g8 sceneFrame ! 0 = - 3"
    using inst cell0 by blast
  moreover have "processMeasuredData g8 sceneFrame = replicate (nat (imageResolution g8)) (- 3) \<and>
      list_all (\<lambda>v. \<not> 0 < v) (processMeasuredData g8 sceneFrame)"
    using inst c s l d by blast
  ultimately show ?thesis using g8_ok c s l d by (simp add: g8_def list_all_length)
qed

subsection \<open>C9: the calibration values lie between 1 and 2000\<close>

text \<open>
  C9. When \<^verbatim>\<open>initTOF\<close> returns, the calibration array holds, for the last frame read, 2000
  where the frame's distance is 0 or above 2000 and the distance itself elsewhere; the
  distances of a raw frame being non-negative, each of the 64 calibration values lies in
  \<open>[1, 2000]\<close>.
\<close>

theorem initTOF_calibration_range:
  assumes "initTOF sensorFound resolution md0 polls = Some g"
    and "\<forall>m. NewFrame m \<in> set polls \<longrightarrow> frame_ok m"
  shows "length (calibration g) = 64 \<and>
         list_all (\<lambda>c. 1 \<le> c \<and> c \<le> 2000) (calibration g) \<and>
         (\<exists>m. NewFrame m \<in> set polls \<and>
              (\<forall>i<64. calibration g ! i =
                  (if distance_mm m ! i = 0 \<or> distance_mm m ! i > 2000 then 2000
                   else distance_mm m ! i)))"
proof -
  from initTOF_Some [OF assms(1)] obtain m
    where m: "NewFrame m \<in> set polls" and c: "calibration g = readCalibration m" by auto
  have ok: "frame_ok m" using assms(2) m by simp
  have "\<forall>i<64. 1 \<le> calibration g ! i \<and> calibration g ! i \<le> 2000"
    using frame_ok_nonneg [OF ok] calibrationCell_range
    by (simp add: c readCalibration_def)
  then have "list_all (\<lambda>c. 1 \<le> c \<and> c \<le> 2000) (calibration g)"
    by (simp add: list_all_length c readCalibration_def)
  moreover have "\<forall>i<64. calibration g ! i =
      (if distance_mm m ! i = 0 \<or> distance_mm m ! i > 2000 then 2000 else distance_mm m ! i)"
    by (simp add: c readCalibration_def calibrationCell_def MAX_CALIBRATION_def)
  ultimately show ?thesis using m by (auto simp: c readCalibration_def)
qed

text \<open>A sensor that delivers three times the frame with a 0 and a 2500.\<close>

theorem initTOF_calibration_range_witness:
  "initTOF True 64 sceneFrame [NewFrame clampFrame, NewFrame clampFrame, NewFrame clampFrame] =
     Some \<lparr>imageResolution = 64, imageWidth = 8,
           calibration = (replicate 64 1000)[0 := 2000, 1 := 2000]\<rparr> \<and>
   frame_ok clampFrame \<and>
   list_all (\<lambda>c. 1 \<le> c \<and> c \<le> 2000) ((replicate 64 1000)[0 := 2000, 1 := 2000 :: int])"
proof -
  have f: "\<forall>m. NewFrame m \<in> set [NewFrame clampFrame, NewFrame clampFrame, NewFrame clampFrame]
             \<longrightarrow> frame_ok m"
    by (simp add: frame_ok_def clampFrame_def list_all_length nth_list_update)
  then have "frame_ok clampFrame" by simp
  then show ?thesis
    using initTOF_calibration_range [OF initTOF_clampFrame f] initTOF_clampFrame by simp
qed

subsection \<open>C10: a valid cell is closer than its calibration value\<close>

text \<open>
  C10. A cell that \<^verbatim>\<open>processMeasuredData\<close> leaves valid (a positive entry) holds its
  measured distance \<open>d\<close>, with \<open>1 \<le> d\<close> and \<open>d < calibration - 50\<close>. So the entry is
  below the calibration value, and the condition of \<^verbatim>\<open>getPOI\<close> that says so rejects no
  valid cell: such a cell qualifies if and only if its score validates and its average
  distance is above \<^verbatim>\<open>NOISE_RANGE\<close>.
\<close>

theorem valid_cell_below_calibration:
  assumes "globals_ok g" and "frame_ok m" and "i < nat (imageResolution g)"
    and "0 < processMeasuredData g m ! i"
  shows "processMeasuredData g m ! i = distance_mm m ! i \<and>
         1 \<le> distance_mm m ! i \<and>
         distance_mm m ! i < calibration g ! i - 50 \<and>
         processMeasuredData g m ! i < calibration g ! i \<and>
         qualifies g (processMeasuredData g m) (int i) =
           (validate (scoreZone g (int i) (processMeasuredData g m)) \<and>
            avgdistZone g (int i) (processMeasuredData g m) > NOISE_RANGE)"
proof -
  have d: "0 \<le> distance_mm m ! i"
    using assms frame_ok_nonneg in_grid_lt_64 by blast
  have "0 < adjustCell (target_status m ! i) (distance_mm m ! i) (calibration g ! i)"
    using assms(3,4) by (simp add: processMeasuredData_nth)
  from adjustCell_positive [OF d this] show ?thesis
    using assms(3,4) by (simp add: processMeasuredData_nth qualifies_def)
qed

theorem valid_cell_below_calibration_witness:
  "globals_ok g8 \<and> frame_ok (blockFrame 0) \<and>
   0 < processMeasuredData g8 (blockFrame 0) ! 0 \<and>
   processMeasuredData g8 (blockFrame 0) ! 0 = 400 \<and>
   distance_mm (blockFrame 0) ! 0 = 400 \<and> calibration g8 ! 0 = 1000 \<and>
   qualifies g8 (processMeasuredData g8 (blockFrame 0)) (int 0)"
proof -
  have f: "frame_ok (blockFrame 0)" by (simp add: blockFrame_ok)
  have i: "0 < nat (imageResolution g8)" by (simp add: g8_def)
  have v: "processMeasuredData g8 (blockFrame 0) ! 0 = 400" by code_simp
  then have p: "0 < processMeasuredData g8 (blockFrame 0) ! 0" by simp
  have q: "validate (scoreZone g8 (int 0) (processMeasuredData g8 (blockFrame 0)))"
    "avgdistZone g8 (int 0) (processMeasuredData g8 (blockFrame 0)) > NOISE_RANGE"
    by code_simp+
  show ?thesis
    using valid_cell_below_calibration [OF g8_ok f i p] g8_ok f p v q
    by (simp add: g8_def blockFrame_def)
qed


end
